theory Spec2Isabelle
  imports Complex_Main
begin

text \<open>
  The conversation orchestrator of the voice assistant (\<open>agent.py\<close>: class
  \<open>VoiceAgent\<close>) and its tool registry (\<open>tools.py\<close>: class \<open>ToolBox\<close>,
  \<open>TOOL_SCHEMAS\<close>, \<open>get_tool_function\<close>), as functions on explicit state. Raising is
  a value (\<open>Inl\<close> of a sum, or a \<open>Raise\<close> step); the two \<open>try\<close> statements of
  \<open>process_user_input\<close> are case distinctions on it. What the Python code calls and
  does not define (the model backend, the JSON library, the clock, \<open>eval\<close>) is a
  parameter.
\<close>

section \<open>Python values and exceptions\<close>

text \<open>
  The values that travel between the model backend, the JSON library and the tools.
  A Python \<open>str\<close> is a \<open>string\<close>, an \<open>int\<close> is an \<open>int\<close>, a \<open>dict\<close> with string keys
  is an association list (the first binding of a key is the one that counts).
  A \<open>float\<close> is kept only as far as the tools look at it: its order against an
  integer. \<open>PObject\<close> stands for any value that is not of a JSON type (a class, a
  function, a complex number, \<open>NotImplemented\<close>); its string names it.
\<close>

datatype pyfloat = Finite rat | PosInf | NegInf | NaN

datatype pyval =
    PNone
  | PBool bool
  | PInt int
  | PFloat pyfloat
  | PStr string
  | PList "pyval list"
  | PDict "(string \<times> pyval) list"
  | PObject string

type_synonym kwargs = "(string \<times> pyval) list"

text \<open>
  An exception is its class name and the text \<open>str(e)\<close> gives. \<open>Exn\<close> is an instance
  of \<open>Exception\<close>, which is what every \<open>except Exception\<close> clause of the source
  catches. \<open>BaseExn\<close> is an instance of \<open>BaseException\<close> that is not one of
  \<open>Exception\<close> (\<open>SystemExit\<close>, \<open>KeyboardInterrupt\<close>, \<open>GeneratorExit\<close>,
  \<open>asyncio.CancelledError\<close>): those clauses let it through.
\<close>

datatype exn =
    Exn (exn_class: string) (exn_str: string)
  | BaseExn (exn_class: string) (exn_str: string)

fun is_Exception :: "exn \<Rightarrow> bool" where
  "is_Exception (Exn c s) = True"
| "is_Exception (BaseExn c s) = False"

text \<open>Truth value of an \<open>Optional[str]\<close>: \<open>None\<close> and the empty string are false.\<close>

fun truthy_str :: "string option \<Rightarrow> bool" where
  "truthy_str None = False"
| "truthy_str (Some s) = (s \<noteq> [])"

text \<open>
  \<open>xs[start:]\<close> for an integer \<open>start\<close>: a negative start counts from the end and is
  clamped at 0, a start past the end gives the empty list. Note \<open>xs[-0:]\<close> is \<open>xs[0:]\<close>.
\<close>

definition py_slice_from :: "int \<Rightarrow> 'a list \<Rightarrow> 'a list" where
  "py_slice_from start xs =
     (let n = int (length xs);
          s = (if start < 0 then max (n + start) 0 else min start n)
      in drop (nat s) xs)"

section \<open>Messages and the agent (agent.py)\<close>

text \<open>
  A tool call as the backend sends it: \<open>tc.id\<close>, \<open>tc.type\<close>, \<open>tc.function.name\<close>,
  \<open>tc.function.arguments\<close> (the raw, serialized arguments).
\<close>

record tool_call =
  tc_id :: string
  tc_type :: string
  function_name :: string
  function_arguments :: string

text \<open>
  A history entry is a dict; a key that is absent is \<open>None\<close> here. \<open>content\<close> is
  present in every entry, and \<open>content = None\<close> is Python's \<open>None\<close> (an assistant
  message that only requests tool calls).
\<close>

record message =
  role :: string
  content :: "string option"
  name :: "string option"
  tool_call_id :: "string option"
  tool_calls :: "tool_call list option"

record voice_agent =
  api_key :: string
  model :: string
  max_history :: int
  system_prompt :: string
  conversation_history :: "message list"

definition system_message :: "string \<Rightarrow> message" where
  "system_message prompt =
     \<lparr>role = ''system'', content = Some prompt, name = None,
      tool_call_id = None, tool_calls = None\<rparr>"

definition default_system_prompt :: string where
  "default_system_prompt =
     ''You are a helpful, friendly AI voice assistant. '' @
     ''You can have natural conversations and use available tools when needed. '' @
     ''Keep your responses concise and conversational since they will be spoken aloud. '' @
     ''When using tools, explain what you're doing in a natural way. '' @
     ''Today's date is January 7, 2026.''"

text \<open>
  \<open>VoiceAgent.__init__\<close>. \<open>getenv\<close> is the value of \<open>os.getenv("OPENAI_API_KEY")\<close>.
  The defaults of the signature are \<open>model = "gpt-4o-mini"\<close> and \<open>max_history = 20\<close>.
\<close>

definition voice_agent_init ::
    "string option \<Rightarrow> string option \<Rightarrow> string \<Rightarrow> string option \<Rightarrow> int \<Rightarrow> exn + voice_agent" where
  "voice_agent_init getenv a_key a_model a_prompt a_max_history =
     (let key = (if truthy_str a_key then a_key else getenv) in
      if \<not> truthy_str key
      then Inl (Exn ''ValueError''
                  ''OpenAI API key not found. Set OPENAI_API_KEY environment variable.'')
      else
        let prompt = (if truthy_str a_prompt then the a_prompt else default_system_prompt)
        in Inr \<lparr>api_key = the key, model = a_model, max_history = a_max_history,
                 system_prompt = prompt,
                 conversation_history = [system_message prompt]\<rparr>)"

text \<open>
  \<open>add_message\<close>: build the dict, append it, then trim. After the append the list is
  never empty, so \<open>conversation_history[0]\<close> cannot raise.
\<close>

definition add_message :: "voice_agent \<Rightarrow> string \<Rightarrow> string \<Rightarrow> string option \<Rightarrow> voice_agent" where
  "add_message self a_role a_content a_name =
     (let msg = \<lparr>role = a_role, content = Some a_content,
                  name = (if truthy_str a_name then a_name else None),
                  tool_call_id = None, tool_calls = None\<rparr>;
          h = conversation_history self @ [msg]
      in if int (length h) > max_history self + 1
         then self\<lparr>conversation_history := [h ! 0] @ py_slice_from (- max_history self) h\<rparr>
         else self\<lparr>conversation_history := h\<rparr>)"

definition reset_conversation :: "voice_agent \<Rightarrow> voice_agent" where
  "reset_conversation self =
     self\<lparr>conversation_history := [system_message (system_prompt self)]\<rparr>"


text \<open>
  \<open>set_system_prompt\<close> assigns to \<open>conversation_history[0]\<close>, which raises
  \<open>IndexError\<close> on an empty list.
\<close>

definition set_system_prompt :: "voice_agent \<Rightarrow> string \<Rightarrow> exn + voice_agent" where
  "set_system_prompt self prompt =
     (if conversation_history self = []
      then Inl (Exn ''IndexError'' ''list assignment index out of range'')
      else Inr (self\<lparr>system_prompt := prompt,
                     conversation_history := (conversation_history self)[0 := system_message prompt]\<rparr>))"

section \<open>What the program takes from outside\<close>

text \<open>
  A completion as the agent reads it: \<open>choice.message.content\<close>,
  \<open>choice.message.tool_calls\<close> and \<open>choice.finish_reason\<close>; a response is its list
  \<open>response.choices\<close>.
\<close>

record assistant_message =
  am_content :: "string option"
  am_tool_calls :: "tool_call list option"

record choice =
  choice_message :: assistant_message
  finish_reason :: string

text \<open>
  Everything the two modules call and do not define is a field of the environment:
  \<^item> \<open>chat_completions_create n model messages tools tool_choice\<close>: the answer of
    \<open>client.chat.completions.create\<close> to the \<open>n\<close>-th request this client makes
    (counted from 0), a response or an exception;
  \<^item> \<open>json_loads\<close>: \<open>json.loads\<close>; \<open>json_encode\<close>: the text \<open>json.dumps\<close> produces for a
    value it accepts;
  \<^item> \<open>strftime_now k fmt\<close>: \<open>datetime.now().strftime(fmt)\<close> at the \<open>k\<close>-th tool run;
  \<^item> \<open>platform_field f\<close>: \<open>platform.f()\<close>;
  \<^item> \<open>py_eval\<close>: \<open>eval(expression, {"__builtins__": {}}, allowed_names)\<close>;
  \<^item> \<open>py_format\<close>: how an f-string renders a value that is neither a \<open>str\<close> nor an
    \<open>int\<close>;
  \<^item> \<open>inherited_attr\<close>: the attributes class \<open>ToolBox\<close> has from Python's object model
    (from \<open>object\<close> and \<open>type\<close>), by name;
  \<^item> \<open>call_object\<close>: the result of calling such a value with keyword arguments;
  \<^item> \<open>interpreter_text site v\<close>: the wording of the message of a \<open>TypeError\<close> the
    interpreter raises at \<open>site\<close> about \<open>v\<close>.
\<close>

record env =
  chat_completions_create ::
    "nat \<Rightarrow> string \<Rightarrow> message list \<Rightarrow> pyval \<Rightarrow> string \<Rightarrow> exn + choice list"
  json_loads :: "string \<Rightarrow> exn + pyval"
  json_encode :: "pyval \<Rightarrow> string"
  strftime_now :: "nat \<Rightarrow> string \<Rightarrow> string"
  platform_field :: "string \<Rightarrow> string"
  py_eval :: "pyval \<Rightarrow> exn + pyval"
  py_format :: "pyval \<Rightarrow> string"
  inherited_attr :: "string \<Rightarrow> pyval option"
  call_object :: "string \<Rightarrow> kwargs \<Rightarrow> exn + pyval"
  interpreter_text :: "string \<Rightarrow> pyval \<Rightarrow> string"

text \<open>
  \<open>json.dumps\<close> with its default arguments accepts exactly the values built from
  \<open>None\<close>, booleans, numbers, strings, lists and dicts with string keys, and raises
  \<open>TypeError\<close> on anything else.
\<close>

fun serializable :: "pyval \<Rightarrow> bool" where
  "serializable (PList vs) = list_all serializable vs"
| "serializable (PDict kvs) = list_all (\<lambda>kv. serializable (snd kv)) kvs"
| "serializable (PObject _) = False"
| "serializable _ = True"

definition json_dumps :: "env \<Rightarrow> pyval \<Rightarrow> exn + string" where
  "json_dumps E v =
     (if serializable v then Inr (json_encode E v)
      else Inl (Exn ''TypeError'' (interpreter_text E ''json.dumps'' v)))"

text \<open>The decimal text of an integer, as \<open>str\<close> and f-strings give it.\<close>

fun decimal :: "nat \<Rightarrow> string" where
  "decimal n =
     (if n < 10 then [char_of (48 + n)]
      else decimal (n div 10) @ [char_of (48 + n mod 10)])"

definition str_int :: "int \<Rightarrow> string" where
  "str_int i = (if i < 0 then ''-'' @ decimal (nat (- i)) else decimal (nat i))"

definition format_value :: "env \<Rightarrow> pyval \<Rightarrow> string" where
  "format_value E v = (case v of PStr s \<Rightarrow> s | PInt i \<Rightarrow> str_int i | _ \<Rightarrow> py_format E v)"

section \<open>The tools (tools.py)\<close>

subsection \<open>Binding keyword arguments\<close>

text \<open>
  \<open>f(**kw)\<close> for a function whose parameters are given with their defaults: a keyword
  that names no parameter raises \<open>TypeError\<close>, a parameter with no default and no
  keyword raises \<open>TypeError\<close>; otherwise every parameter gets its keyword's value or its
  default, in the order of the signature.
\<close>

definition bind_arguments ::
    "env \<Rightarrow> string \<Rightarrow> (string \<times> pyval option) list \<Rightarrow> kwargs \<Rightarrow> exn + pyval list" where
  "bind_arguments E fname params kw =
     (case filter (\<lambda>k. k \<notin> set (map fst params)) (map fst kw) of
        k # _ \<Rightarrow>
          Inl (Exn ''TypeError'' (interpreter_text E (fname @ '': unexpected keyword'') (PStr k)))
      | [] \<Rightarrow>
         (case filter (\<lambda>pd. map_of kw (fst pd) = None \<and> snd pd = None) params of
            pd # _ \<Rightarrow>
              Inl (Exn ''TypeError''
                     (interpreter_text E (fname @ '': missing argument'') (PStr (fst pd))))
          | [] \<Rightarrow>
              Inr (map (\<lambda>pd. case map_of kw (fst pd) of Some v \<Rightarrow> v | None \<Rightarrow> the (snd pd))
                       params)))"

subsection \<open>class ToolBox\<close>

definition get_current_time :: "env \<Rightarrow> nat \<Rightarrow> pyval \<Rightarrow> pyval" where
  "get_current_time E k timezone =
     PDict [(''status'', PStr ''success''),
            (''time'', PStr (strftime_now E k ''%H:%M:%S'')),
            (''date'', PStr (strftime_now E k ''%Y-%m-%d'')),
            (''day_of_week'', PStr (strftime_now E k ''%A'')),
            (''timezone'', timezone)]"

definition get_current_weather :: "pyval \<Rightarrow> pyval \<Rightarrow> pyval" where
  "get_current_weather location unit =
     PDict [(''status'', PStr ''success''),
            (''location'', location),
            (''temperature'', PInt (if unit = PStr ''celsius'' then 22 else 72)),
            (''unit'', unit),
            (''condition'', PStr ''Partly Cloudy''),
            (''humidity'', PInt 65),
            (''wind_speed'', PInt 15),
            (''note'', PStr ''This is dummy data. Integrate a real weather API for production use.'')]"

text \<open>
  \<open>min(num_results, 3)\<close> returns its first argument unless \<open>3 < num_results\<close>; the
  comparison raises \<open>TypeError\<close> for a value that is not a number. \<open>range\<close> accepts an
  \<open>int\<close> (a \<open>bool\<close> is one) and raises \<open>TypeError\<close> for anything else, a \<open>float\<close> too.
\<close>

fun float_gt_3 :: "pyfloat \<Rightarrow> bool" where
  "float_gt_3 (Finite q) = (3 < q)"
| "float_gt_3 PosInf = True"
| "float_gt_3 NegInf = False"
| "float_gt_3 NaN = False"

fun min_3 :: "env \<Rightarrow> pyval \<Rightarrow> exn + pyval" where
  "min_3 E (PInt n) = Inr (if 3 < n then PInt 3 else PInt n)"
| "min_3 E (PBool b) = Inr (PBool b)"
| "min_3 E (PFloat f) = Inr (if float_gt_3 f then PInt 3 else PFloat f)"
| "min_3 E v = Inl (Exn ''TypeError'' (interpreter_text E ''min'' v))"

fun py_range :: "env \<Rightarrow> pyval \<Rightarrow> exn + int list" where
  "py_range E (PInt n) = Inr (map int [0 ..< nat n])"
| "py_range E (PBool b) = Inr (map int [0 ..< (if b then 1 else 0)])"
| "py_range E v = Inl (Exn ''TypeError'' (interpreter_text E ''range'' v))"

definition search_result :: "env \<Rightarrow> pyval \<Rightarrow> int \<Rightarrow> pyval" where
  "search_result E query i =
     PDict [(''title'',
               PStr (''Result '' @ str_int (i + 1) @ '' for '' @ [CHR 0x27]
                     @ format_value E query @ [CHR 0x27])),
            (''snippet'',
               PStr (''This is a dummy search result snippet for '' @ format_value E query)),
            (''url'', PStr (''https://example.com/result'' @ str_int (i + 1)))]"

definition search_web :: "env \<Rightarrow> pyval \<Rightarrow> pyval \<Rightarrow> exn + pyval" where
  "search_web E query num_results =
     (case min_3 E num_results of
        Inl e \<Rightarrow> Inl e
      | Inr m \<Rightarrow>
         (case py_range E m of
            Inl e \<Rightarrow> Inl e
          | Inr indices \<Rightarrow>
              Inr (PDict [(''status'', PStr ''success''),
                          (''query'', query),
                          (''results'', PList (map (search_result E query) indices)),
                          (''note'', PStr ''This is dummy data. Integrate a real search API for production use.'')])))"

definition get_system_info :: "env \<Rightarrow> pyval" where
  "get_system_info E =
     PDict [(''status'', PStr ''success''),
            (''system'', PStr (platform_field E ''system'')),
            (''release'', PStr (platform_field E ''release'')),
            (''version'', PStr (platform_field E ''version'')),
            (''machine'', PStr (platform_field E ''machine'')),
            (''processor'', PStr (platform_field E ''processor'')),
            (''python_version'', PStr (platform_field E ''python_version''))]"

definition execute_system_command :: "pyval \<Rightarrow> pyval" where
  "execute_system_command command =
     PDict [(''status'', PStr ''error''),
            (''message'', PStr ''System command execution is disabled for security reasons.''),
            (''command'', command),
            (''note'', PStr ''To enable this, modify the execute_system_command function and implement proper security controls.'')]"

text \<open>
  \<open>calculate\<close> is the one tool with a \<open>try\<close> of its own: what \<open>eval\<close> raises is
  turned into an error result if it is an instance of \<open>Exception\<close>, and leaves the
  function otherwise.
\<close>

definition calculate :: "env \<Rightarrow> pyval \<Rightarrow> exn + pyval" where
  "calculate E expression =
     (case py_eval E expression of
        Inr result \<Rightarrow>
          Inr (PDict [(''status'', PStr ''success''), (''expression'', expression),
                      (''result'', result)])
      | Inl e \<Rightarrow>
          if is_Exception e then
            Inr (PDict [(''status'', PStr ''error''), (''expression'', expression),
                        (''error'', PStr (exn_str e))])
          else Inl e)"

subsection \<open>TOOL\_SCHEMAS\<close>

definition TOOL_SCHEMAS :: pyval where
  "TOOL_SCHEMAS = PList [
     PDict [(''type'', PStr ''function''),
            (''function'', PDict [
               (''name'', PStr ''get_current_time''),
               (''description'', PStr ''Get the current time and date. Use this when the user asks about the time or date.''),
               (''parameters'', PDict [
                  (''type'', PStr ''object''),
                  (''properties'', PDict [
                     (''timezone'', PDict [
                        (''type'', PStr ''string''),
                        (''enum'', PList [PStr ''local'']),
                        (''description'', PStr ''The timezone (currently only 'local' is supported)'')])]),
                  (''required'', PList [])])])],
     PDict [(''type'', PStr ''function''),
            (''function'', PDict [
               (''name'', PStr ''get_current_weather''),
               (''description'', PStr ''Get the current weather for a specific location. Use this when the user asks about weather conditions.''),
               (''parameters'', PDict [
                  (''type'', PStr ''object''),
                  (''properties'', PDict [
                     (''location'', PDict [
                        (''type'', PStr ''string''),
                        (''description'', PStr (''The city or location name, e.g., 'New York', 'London', 'Tokyo'' @ [CHR 0x27]))]),
                     (''unit'', PDict [
                        (''type'', PStr ''string''),
                        (''enum'', PList [PStr ''celsius'', PStr ''fahrenheit'']),
                        (''description'', PStr ''Temperature unit'')])]),
                  (''required'', PList [PStr ''location''])])])],
     PDict [(''type'', PStr ''function''),
            (''function'', PDict [
               (''name'', PStr ''search_web''),
               (''description'', PStr ''Search the web for information. Use this when the user asks you to look up information you don't know.''),
               (''parameters'', PDict [
                  (''type'', PStr ''object''),
                  (''properties'', PDict [
                     (''query'', PDict [
                        (''type'', PStr ''string''),
                        (''description'', PStr ''The search query'')]),
                     (''num_results'', PDict [
                        (''type'', PStr ''integer''),
                        (''description'', PStr ''Number of search results to return (1-5)''),
                        (''minimum'', PInt 1),
                        (''maximum'', PInt 5)])]),
                  (''required'', PList [PStr ''query''])])])],
     PDict [(''type'', PStr ''function''),
            (''function'', PDict [
               (''name'', PStr ''get_system_info''),
               (''description'', PStr ''Get information about the computer system. Use this when the user asks about system specifications or OS details.''),
               (''parameters'', PDict [
                  (''type'', PStr ''object''),
                  (''properties'', PDict []),
                  (''required'', PList [])])])],
     PDict [(''type'', PStr ''function''),
            (''function'', PDict [
               (''name'', PStr ''calculate''),
               (''description'', PStr ''Perform mathematical calculations. Use this when the user asks to calculate or solve math problems.''),
               (''parameters'', PDict [
                  (''type'', PStr ''object''),
                  (''properties'', PDict [
                     (''expression'', PDict [
                        (''type'', PStr ''string''),
                        (''description'', PStr (''Mathematical expression to evaluate, e.g., '2 + 2', '10 * 5', 'pow(2, 8)'' @ [CHR 0x27]))])]),
                  (''required'', PList [PStr ''expression''])])])]]"

text \<open>Subscripting a dict, \<open>d[k]\<close>, and following a path of keys.\<close>

fun py_get :: "pyval \<Rightarrow> string \<Rightarrow> pyval option" where
  "py_get (PDict kvs) k = map_of kvs k"
| "py_get _ k = None"

fun py_path :: "pyval \<Rightarrow> string list \<Rightarrow> pyval option" where
  "py_path v [] = Some v"
| "py_path v (k # ks) = (case py_get v k of None \<Rightarrow> None | Some v' \<Rightarrow> py_path v' ks)"

fun py_items :: "pyval \<Rightarrow> pyval list" where
  "py_items (PList vs) = vs"
| "py_items _ = []"

text \<open>The names the schema list advertises, and the schema of one name.\<close>

definition schema_names :: "pyval \<Rightarrow> pyval option list" where
  "schema_names schemas = map (\<lambda>s. py_path s [''function'', ''name'']) (py_items schemas)"

definition schema_of :: "pyval \<Rightarrow> string \<Rightarrow> pyval option" where
  "schema_of schemas n =
     find (\<lambda>s. py_path s [''function'', ''name''] = Some (PStr n)) (py_items schemas)"

subsection \<open>get\_tool\_function\<close>

text \<open>
  The six static methods of \<open>ToolBox\<close>, and what \<open>getattr(ToolBox, name)\<close> can give: one
  of them, or another attribute of the class, which is a value. The docstring of the
  class is the one attribute of that kind the source itself writes (as the literal
  stands in the source, with its indentation).
\<close>

datatype toolbox_method =
    ToolBox_get_current_time
  | ToolBox_get_current_weather
  | ToolBox_search_web
  | ToolBox_get_system_info
  | ToolBox_execute_system_command
  | ToolBox_calculate

datatype attribute = StaticMethod toolbox_method | Value pyval

definition ToolBox_dict :: "(string \<times> toolbox_method) list" where
  "ToolBox_dict =
     [(''get_current_time'', ToolBox_get_current_time),
      (''get_current_weather'', ToolBox_get_current_weather),
      (''search_web'', ToolBox_search_web),
      (''get_system_info'', ToolBox_get_system_info),
      (''execute_system_command'', ToolBox_execute_system_command),
      (''calculate'', ToolBox_calculate)]"

definition ToolBox_doc :: string where
  "ToolBox_doc =
     ''\<newline>    Static methods that the LLM can call through OpenAI's function calling.'' @
     ''\<newline>    Each method here should have a corresponding schema in TOOL_SCHEMAS.'' @
     ''\<newline>    ''"

definition get_tool_function :: "env \<Rightarrow> string \<Rightarrow> exn + attribute" where
  "get_tool_function E a_function_name =
     (case map_of ToolBox_dict a_function_name of
        Some m \<Rightarrow> Inr (StaticMethod m)
      | None \<Rightarrow>
         if a_function_name = ''__doc__'' then Inr (Value (PStr ToolBox_doc))
         else
           (case inherited_attr E a_function_name of
              Some v \<Rightarrow> Inr (Value v)
            | None \<Rightarrow>
                Inl (Exn ''AttributeError''
                       (''type object 'ToolBox' has no attribute '' @ [CHR 0x27]
                        @ a_function_name @ [CHR 0x27]))))"

subsection \<open>Calling what get\_tool\_function returned\<close>

text \<open>
  \<open>call_method E k m kw\<close> is \<open>m(**kw)\<close> at tool run \<open>k\<close>: the keywords are bound to the
  signature of the method, then its body runs.
\<close>

fun call_method :: "env \<Rightarrow> nat \<Rightarrow> toolbox_method \<Rightarrow> kwargs \<Rightarrow> exn + pyval" where
  "call_method E k ToolBox_get_current_time kw =
     (case bind_arguments E ''get_current_time'' [(''timezone'', Some (PStr ''local''))] kw of
        Inl e \<Rightarrow> Inl e
      | Inr args \<Rightarrow> Inr (get_current_time E k (args ! 0)))"
| "call_method E k ToolBox_get_current_weather kw =
     (case bind_arguments E ''get_current_weather''
             [(''location'', None), (''unit'', Some (PStr ''celsius''))] kw of
        Inl e \<Rightarrow> Inl e
      | Inr args \<Rightarrow> Inr (get_current_weather (args ! 0) (args ! 1)))"
| "call_method E k ToolBox_search_web kw =
     (case bind_arguments E ''search_web''
             [(''query'', None), (''num_results'', Some (PInt 3))] kw of
        Inl e \<Rightarrow> Inl e
      | Inr args \<Rightarrow> search_web E (args ! 0) (args ! 1))"
| "call_method E k ToolBox_get_system_info kw =
     (case bind_arguments E ''get_system_info'' [] kw of
        Inl e \<Rightarrow> Inl e
      | Inr args \<Rightarrow> Inr (get_system_info E))"
| "call_method E k ToolBox_execute_system_command kw =
     (case bind_arguments E ''execute_system_command'' [(''command'', None)] kw of
        Inl e \<Rightarrow> Inl e
      | Inr args \<Rightarrow> Inr (execute_system_command (args ! 0)))"
| "call_method E k ToolBox_calculate kw =
     (case bind_arguments E ''calculate'' [(''expression'', None)] kw of
        Inl e \<Rightarrow> Inl e
      | Inr args \<Rightarrow> calculate E (args ! 0))"

text \<open>
  \<open>tool_function(**function_args)\<close>: the arguments must be a mapping; a value of a
  JSON type is not callable; calling any other object is the environment's.
\<close>

definition call_attribute :: "env \<Rightarrow> nat \<Rightarrow> attribute \<Rightarrow> pyval \<Rightarrow> exn + pyval" where
  "call_attribute E k tool_function function_args =
     (case function_args of
        PDict kw \<Rightarrow>
          (case tool_function of
             StaticMethod m \<Rightarrow> call_method E k m kw
           | Value (PObject obj) \<Rightarrow> call_object E obj kw
           | Value v \<Rightarrow> Inl (Exn ''TypeError'' (interpreter_text E ''not callable'' v)))
      | _ \<Rightarrow> Inl (Exn ''TypeError'' (interpreter_text E ''not a mapping'' function_args)))"

section \<open>process\_user\_input (agent.py)\<close>

text \<open>
  What lies outside the agent and changes as it runs: how many requests the client has
  made, and how many tool calls have been run.
\<close>

record world =
  api_calls :: nat
  tool_runs :: nat

definition error_result :: "exn \<Rightarrow> pyval" where
  "error_result e = PDict [(''status'', PStr ''error''), (''error'', PStr (exn_str e))]"

text \<open>The three statements of the inner \<open>try\<close>; any of them may raise.\<close>

definition execute_tool :: "env \<Rightarrow> nat \<Rightarrow> string \<Rightarrow> pyval \<Rightarrow> exn + string" where
  "execute_tool E k a_function_name function_args =
     (case get_tool_function E a_function_name of
        Inl e \<Rightarrow> Inl e
      | Inr tool_function \<Rightarrow>
         (case call_attribute E k tool_function function_args of
            Inl e \<Rightarrow> Inl e
          | Inr function_result \<Rightarrow> json_dumps E function_result))"

text \<open>
  The inner \<open>try\<close> with its \<open>except Exception\<close>: the value of \<open>result_str\<close>, or the
  exception that the clause does not catch.
\<close>

definition tool_result_str :: "env \<Rightarrow> nat \<Rightarrow> string \<Rightarrow> pyval \<Rightarrow> exn + string" where
  "tool_result_str E k a_function_name function_args =
     (case execute_tool E k a_function_name function_args of
        Inr result_str \<Rightarrow> Inr result_str
      | Inl e \<Rightarrow> if is_Exception e then json_dumps E (error_result e) else Inl e)"

definition tool_message :: "tool_call \<Rightarrow> string \<Rightarrow> message" where
  "tool_message tc result_str =
     \<lparr>role = ''tool'', content = Some result_str, name = Some (function_name tc),
      tool_call_id = Some (tc_id tc), tool_calls = None\<rparr>"

definition append_message :: "voice_agent \<Rightarrow> message \<Rightarrow> voice_agent" where
  "append_message self msg = self\<lparr>conversation_history := conversation_history self @ [msg]\<rparr>"

text \<open>
  The \<open>for\<close> loop over the tool calls. \<open>json.loads\<close> stands before the inner \<open>try\<close>:
  when it raises, the loop is left at once with the exception, and so is it when the
  inner \<open>try\<close> lets an exception through or its handler raises. The result is the
  exception that left the loop, if any, with the agent and the world as they are then.
\<close>

fun execute_tool_calls ::
    "env \<Rightarrow> tool_call list \<Rightarrow> voice_agent \<Rightarrow> world \<Rightarrow> exn option \<times> voice_agent \<times> world" where
  "execute_tool_calls E [] self w = (None, self, w)"
| "execute_tool_calls E (tc # rest) self w =
     (case json_loads E (function_arguments tc) of
        Inl e \<Rightarrow> (Some e, self, w)
      | Inr function_args \<Rightarrow>
         (case tool_result_str E (tool_runs w) (function_name tc) function_args of
            Inl e \<Rightarrow> (Some e, self, w\<lparr>tool_runs := tool_runs w + 1\<rparr>)
          | Inr result_str \<Rightarrow>
              execute_tool_calls E rest
                (append_message self (tool_message tc result_str))
                (w\<lparr>tool_runs := tool_runs w + 1\<rparr>)))"

definition tool_calls_truthy :: "tool_call list option \<Rightarrow> bool" where
  "tool_calls_truthy tcs = (case tcs of None \<Rightarrow> False | Some l \<Rightarrow> l \<noteq> [])"

definition assistant_tool_call_message :: "assistant_message \<Rightarrow> message" where
  "assistant_tool_call_message am =
     \<lparr>role = ''assistant'', content = am_content am, name = None, tool_call_id = None,
      tool_calls = Some (the (am_tool_calls am))\<rparr>"

definition default_reply :: string where
  "default_reply = ''I'm not sure how to respond to that.''"

definition fallback :: string where
  "fallback = ''I apologize, but I encountered an issue processing your request.''"

definition error_response :: string where
  "error_response = ''I'm sorry, I encountered an error while processing your request.''"

definition timeout_response :: string where
  "timeout_response = ''I apologize, but I'm having trouble completing that request.''"

definition max_iterations :: nat where
  "max_iterations = 5"

text \<open>
  One pass through the body of the outer \<open>try\<close>: it ends by \<open>continue\<close>, by \<open>return\<close>,
  or by an exception, each with the agent and the world as the pass left them.
\<close>

datatype step =
    Continue voice_agent world
  | Return string voice_agent world
  | Raise exn voice_agent world

definition try_body :: "env \<Rightarrow> voice_agent \<Rightarrow> world \<Rightarrow> step" where
  "try_body E self w =
     (let w1 = w\<lparr>api_calls := api_calls w + 1\<rparr> in
      case chat_completions_create E (api_calls w) (model self) (conversation_history self)
             TOOL_SCHEMAS ''auto'' of
        Inl e \<Rightarrow> Raise e self w1
      | Inr choices \<Rightarrow>
         (case choices of
            [] \<Rightarrow> Raise (Exn ''IndexError'' ''list index out of range'') self w1
          | c # _ \<Rightarrow>
             let am = choice_message c in
             if finish_reason c = ''tool_calls'' \<and> tool_calls_truthy (am_tool_calls am) then
               (case execute_tool_calls E (the (am_tool_calls am))
                       (append_message self (assistant_tool_call_message am)) w1 of
                  (Some e, self', w') \<Rightarrow> Raise e self' w'
                | (None, self', w') \<Rightarrow> Continue self' w')
             else if finish_reason c = ''stop'' then
               let final_response =
                     (if truthy_str (am_content am) then the (am_content am) else default_reply)
               in Return final_response (add_message self ''assistant'' final_response None) w1
             else Return fallback (add_message self ''assistant'' fallback None) w1))"

text \<open>
  The \<open>while\<close> loop, from the value of \<open>iteration\<close> at its test. The result is what
  the caller gets: \<open>Inr\<close> of the string returned, or \<open>Inl\<close> of the exception raised
  to the caller. A pass that raises an instance of \<open>Exception\<close> is caught by
  \<open>except Exception\<close>, which appends the error response and returns it; any other
  exception leaves \<open>process_user_input\<close>, the agent staying as the pass left it.
\<close>

function agentic_loop ::
    "env \<Rightarrow> nat \<Rightarrow> voice_agent \<Rightarrow> world \<Rightarrow> (exn + string) \<times> voice_agent \<times> world" where
  "agentic_loop E iteration self w =
     (if iteration < max_iterations then
        (case try_body E self w of
           Continue self' w' \<Rightarrow> agentic_loop E (iteration + 1) self' w'
         | Return response self' w' \<Rightarrow> (Inr response, self', w')
         | Raise e self' w' \<Rightarrow>
             if is_Exception e then
               (Inr error_response, add_message self' ''assistant'' error_response None, w')
             else (Inl e, self', w'))
      else (Inr timeout_response, add_message self ''assistant'' timeout_response None, w))"
  by pat_completeness auto
termination
  by (relation "measure (\<lambda>(E, iteration, self, w). max_iterations - iteration)") auto

definition process_user_input ::
    "env \<Rightarrow> voice_agent \<Rightarrow> world \<Rightarrow> string \<Rightarrow> (exn + string) \<times> voice_agent \<times> world" where
  "process_user_input E self w user_input =
     agentic_loop E 0 (add_message self ''user'' user_input None) w"

declare agentic_loop.simps [simp del]

section \<open>Properties used to state the results\<close>

text \<open>Position 0 of the history is the system message of the current system prompt.\<close>

definition system_first :: "voice_agent \<Rightarrow> bool" where
  "system_first self =
     (conversation_history self \<noteq> []
      \<and> conversation_history self ! 0 = system_message (system_prompt self))"

text \<open>Two agents that differ in their history at most.\<close>

definition same_settings :: "voice_agent \<Rightarrow> voice_agent \<Rightarrow> bool" where
  "same_settings self self' =
     (max_history self' = max_history self \<and> system_prompt self' = system_prompt self
      \<and> model self' = model self \<and> api_key self' = api_key self)"


section \<open>Test doubles\<close>

text \<open>
  A concrete environment for running the model on concrete inputs, in the manner of
  a unit test with a mocked backend. The backend's answer depends only on how many
  requests came before. A scripted backend answers the \<open>n\<close>-th request with the
  \<open>n\<close>-th entry of its script and raises once the script is exhausted.
\<close>

definition scripted :: "(exn + choice list) list \<Rightarrow> nat \<Rightarrow> exn + choice list" where
  "scripted script n =
     (if n < length script then script ! n else Inl (Exn ''StopAsyncIteration'' []))"

text \<open>
  An expression that leaves \<open>eval\<close> with \<open>SystemExit\<close> although the builtins are
  withheld: it reaches the class of \<open>exit\<close> through the subclasses of \<open>object\<close> and
  calls an instance of it. \<open>escape_arguments\<close> is the raw argument string
  \<open>{"expression": "..."}\<close> that carries it.
\<close>

definition escape_expression :: string where
  "escape_expression =
     ''[c for c in ().__class__.__base__.__subclasses__() if c.__name__ == 'Quitter'][0]('exit', 'eof')()''"

definition escape_arguments :: string where
  "escape_arguments =
     ''{'' @ [CHR 0x22] @ ''expression'' @ [CHR 0x22] @ '': '' @ [CHR 0x22]
     @ escape_expression @ [CHR 0x22] @ ''}''"

text \<open>
  \<open>json.loads\<close> on the argument strings the scenarios send: the empty object, a lone
  opening brace, which is not JSON, and \<open>escape_arguments\<close>. No scenario sends another
  string.
\<close>

definition test_json_loads :: "string \<Rightarrow> exn + pyval" where
  "test_json_loads s =
     (if s = ''{}'' then Inr (PDict [])
      else if s = ''{'' then
        Inl (Exn ''JSONDecodeError''
               ''Expecting property name enclosed in double quotes: line 1 column 2 (char 1)'')
      else if s = escape_arguments then Inr (PDict [(''expression'', PStr escape_expression)])
      else Inl (Exn ''NotInTable'' s))"

text \<open>
  \<open>eval\<close> on the one expression the scenarios evaluate: it raises \<open>SystemExit(None)\<close>.
\<close>

definition test_py_eval :: "pyval \<Rightarrow> exn + pyval" where
  "test_py_eval v =
     (if v = PStr escape_expression then Inl (BaseExn ''SystemExit'' ''None'')
      else Inl (Exn ''NotInTable'' []))"

text \<open>
  The text of \<open>json.dumps\<close> for values that hold no float and whose strings need no
  escaping: the separators are \<open>", "\<close> and \<open>": "\<close>. (For a float and for a value
  that is not of a JSON type it gives the empty text; no scenario has one.)
\<close>

fun join :: "string \<Rightarrow> string list \<Rightarrow> string" where
  "join sep [] = []"
| "join sep [x] = x"
| "join sep (x # y # ys) = x @ sep @ join sep (y # ys)"

fun plain_json :: "pyval \<Rightarrow> string" where
  "plain_json PNone = ''null''"
| "plain_json (PBool b) = (if b then ''true'' else ''false'')"
| "plain_json (PInt i) = str_int i"
| "plain_json (PFloat f) = []"
| "plain_json (PStr s) = [CHR 0x22] @ s @ [CHR 0x22]"
| "plain_json (PList vs) = ''['' @ join '', '' (map plain_json vs) @ '']''"
| "plain_json (PDict kvs) =
     ''{'' @ join '', '' (map (\<lambda>kv. [CHR 0x22] @ fst kv @ [CHR 0x22] @ '': '' @ plain_json (snd kv)) kvs)
     @ ''}''"
| "plain_json (PObject obj) = []"

text \<open>The clock stands at 14:30:00 on Wednesday, 7 January 2026.\<close>

definition test_strftime :: "nat \<Rightarrow> string \<Rightarrow> string" where
  "test_strftime k fmt =
     (if fmt = ''%H:%M:%S'' then ''14:30:00''
      else if fmt = ''%Y-%m-%d'' then ''2026-01-07''
      else if fmt = ''%A'' then ''Wednesday''
      else fmt)"

text \<open>Two of the attributes every class has: its name and its module.\<close>

definition test_inherited_attr :: "string \<Rightarrow> pyval option" where
  "test_inherited_attr n =
     (if n = ''__name__'' then Some (PStr ''ToolBox'')
      else if n = ''__module__'' then Some (PStr ''tools'')
      else None)"

definition test_env :: "(nat \<Rightarrow> exn + choice list) \<Rightarrow> env" where
  "test_env backend =
     \<lparr>chat_completions_create = (\<lambda>n a_model messages tools tool_choice. backend n),
      json_loads = test_json_loads,
      json_encode = plain_json,
      strftime_now = test_strftime,
      platform_field = (\<lambda>f. f),
      py_eval = test_py_eval,
      py_format = plain_json,
      inherited_attr = test_inherited_attr,
      call_object = (\<lambda>obj kw. Inl (Exn ''TypeError'' obj)),
      interpreter_text = (\<lambda>site v. site)\<rparr>"

text \<open>
  The agent of the scenarios, as \<open>VoiceAgent(api_key="sk-test",
  system_prompt="You are a test assistant.", max_history=m)\<close> builds it, and the world
  before its first request.
\<close>

definition test_agent :: "int \<Rightarrow> voice_agent" where
  "test_agent m =
     \<lparr>api_key = ''sk-test'', model = ''gpt-4o-mini'', max_history = m,
      system_prompt = ''You are a test assistant.'',
      conversation_history = [system_message ''You are a test assistant.'']\<rparr>"

definition world0 :: world where
  "world0 = \<lparr>api_calls = 0, tool_runs = 0\<rparr>"

text \<open>A response with one choice.\<close>

definition completion :: "string option \<Rightarrow> tool_call list option \<Rightarrow> string \<Rightarrow> exn + choice list" where
  "completion text calls reason =
     Inr [\<lparr>choice_message = \<lparr>am_content = text, am_tool_calls = calls\<rparr>,
           finish_reason = reason\<rparr>]"

definition time_call :: "string \<Rightarrow> tool_call" where
  "time_call raw_arguments =
     \<lparr>tc_id = ''call_1'', tc_type = ''function'', function_name = ''get_current_time'',
      function_arguments = raw_arguments\<rparr>"




definition assistant_text :: "string \<Rightarrow> message" where
  "assistant_text text =
     \<lparr>role = ''assistant'', content = Some text, name = None, tool_call_id = None,
      tool_calls = None\<rparr>"

definition user_text :: "string \<Rightarrow> message" where
  "user_text text =
     \<lparr>role = ''user'', content = Some text, name = None, tool_call_id = None,
      tool_calls = None\<rparr>"

section \<open>Auxiliary facts\<close>

subsection \<open>The history under add\_message and the direct appends\<close>

lemma py_slice_from_last:
  assumes "1 \<le> m" "m < int (length h)"
  shows "length (py_slice_from (- m) h) = nat m"
  using assms by (simp add: py_slice_from_def Let_def max_def)

lemma add_message_length:
  assumes "1 \<le> max_history self"
  shows "int (length (conversation_history (add_message self r c n))) \<le> 1 + max_history self"
  using assms py_slice_from_last[of "max_history self" "conversation_history self @ [x]" for x]
  by (auto simp add: add_message_def Let_def)

lemma add_message_fields [simp]:
  "max_history (add_message self r c n) = max_history self"
  "system_prompt (add_message self r c n) = system_prompt self"
  "model (add_message self r c n) = model self"
  "api_key (add_message self r c n) = api_key self"
  by (simp_all add: add_message_def Let_def)

lemma add_message_nonempty [simp]: "conversation_history (add_message self r c n) \<noteq> []"
  by (simp add: add_message_def Let_def)

lemma add_message_first:
  "conversation_history self \<noteq> [] \<Longrightarrow>
   conversation_history (add_message self r c n) ! 0 = conversation_history self ! 0"
  by (simp add: add_message_def Let_def nth_append)

lemma add_message_system_first: "system_first self \<Longrightarrow> system_first (add_message self r c n)"
  by (simp add: system_first_def add_message_first)

lemma append_message_fields [simp]:
  "max_history (append_message self m) = max_history self"
  "system_prompt (append_message self m) = system_prompt self"
  "model (append_message self m) = model self"
  "api_key (append_message self m) = api_key self"
  "conversation_history (append_message self m) = conversation_history self @ [m]"
  by (simp_all add: append_message_def)

lemma append_message_system_first: "system_first self \<Longrightarrow> system_first (append_message self m)"
  by (simp add: system_first_def nth_append)

lemma same_settings_refl [simp]: "same_settings self self"
  by (simp add: same_settings_def)

lemma same_settings_add_message [simp]:
  "same_settings self (add_message self' r c n) = same_settings self self'"
  by (simp add: same_settings_def)

lemma same_settings_trans:
  "same_settings a b \<Longrightarrow> same_settings b c \<Longrightarrow> same_settings a c"
  by (simp add: same_settings_def)

lemma voice_agent_init_test_agent:
  "voice_agent_init None (Some ''sk-test'') ''gpt-4o-mini'' (Some ''You are a test assistant.'') m
     = Inr (test_agent m)"
  by (simp add: voice_agent_init_def test_agent_def Let_def)

lemma voice_agent_init_system_first:
  "voice_agent_init getenv a_key a_model a_prompt m = Inr self \<Longrightarrow> system_first self"
  by (auto simp: voice_agent_init_def system_first_def Let_def split: if_splits)

lemma set_system_prompt_system_first:
  "set_system_prompt self prompt = Inr self' \<Longrightarrow>
     system_first self'
     \<and> length (conversation_history self') = length (conversation_history self)"
  by (auto simp: set_system_prompt_def system_first_def split: if_splits)

lemma reset_conversation_system_first: "system_first (reset_conversation self)"
  by (simp add: reset_conversation_def system_first_def)

text \<open>
  With \<open>max_history = 0\<close> the slice \<open>[-0:]\<close> is the whole list: nothing is dropped and the
  first message is repeated.
\<close>

lemma add_message_max_history_zero:
  assumes "max_history self = 0" and "conversation_history self \<noteq> []"
  shows "conversation_history (add_message self r c n) =
           conversation_history self ! 0
           # conversation_history self
           @ [\<lparr>role = r, content = Some c, name = (if truthy_str n then n else None),
               tool_call_id = None, tool_calls = None\<rparr>]"
  using assms by (simp add: add_message_def Let_def py_slice_from_def nth_append)

subsection \<open>The inner try\<close>

lemma serializable_error_result [simp]: "serializable (error_result e)"
  by (simp add: error_result_def)

lemma execute_tool_Inl_iff:
  "execute_tool E k n args = Inl e \<longleftrightarrow>
     get_tool_function E n = Inl e
     \<or> (\<exists>f. get_tool_function E n = Inr f \<and> call_attribute E k f args = Inl e)
     \<or> (\<exists>f r. get_tool_function E n = Inr f \<and> call_attribute E k f args = Inr r
                \<and> json_dumps E r = Inl e)"
  by (auto simp: execute_tool_def split: sum.splits)

text \<open>
  What the inner \<open>try\<close> gives: a string, unless an exception that is not an instance of
  \<open>Exception\<close> passes the handler.
\<close>

lemma tool_result_str_error:
  "execute_tool E k n args = Inl e \<Longrightarrow> is_Exception e \<Longrightarrow>
   tool_result_str E k n args = Inr (json_encode E (error_result e))"
  by (simp add: tool_result_str_def json_dumps_def)

lemma tool_result_str_passes:
  "execute_tool E k n args = Inl e \<Longrightarrow> \<not> is_Exception e \<Longrightarrow>
   tool_result_str E k n args = Inl e"
  by (simp add: tool_result_str_def)

lemma tool_result_str_Inl:
  "tool_result_str E k n args = Inl e \<Longrightarrow>
   execute_tool E k n args = Inl e \<and> \<not> is_Exception e"
  by (auto simp: tool_result_str_def json_dumps_def split: sum.splits if_splits)

lemma tool_result_str_total:
  assumes "\<And>e. execute_tool E k n args = Inl e \<Longrightarrow> is_Exception e"
  shows "\<exists>s. tool_result_str E k n args = Inr s"
proof (cases "tool_result_str E k n args")
  case (Inl e)
  from tool_result_str_Inl[OF this] assms show ?thesis by blast
next
  case (Inr s)
  then show ?thesis by blast
qed

text \<open>Where an exception of the tools can come from.\<close>

lemma bind_arguments_Inl:
  "bind_arguments E fname params kw = Inl e \<Longrightarrow> is_Exception e"
  by (auto simp: bind_arguments_def split: list.splits)

lemma min_3_Inl: "min_3 E v = Inl e \<Longrightarrow> is_Exception e"
  by (cases v) auto

lemma py_range_Inl: "py_range E v = Inl e \<Longrightarrow> is_Exception e"
  by (cases v) auto

lemma search_web_Inl: "search_web E q n = Inl e \<Longrightarrow> is_Exception e"
  by (auto simp: search_web_def split: sum.splits dest: min_3_Inl py_range_Inl)

lemma calculate_Inl:
  "calculate E expression = Inl e \<Longrightarrow> py_eval E expression = Inl e \<and> \<not> is_Exception e"
  by (auto simp: calculate_def split: sum.splits if_splits)

lemma call_method_Inl:
  assumes "call_method E k m kw = Inl e" and "\<not> is_Exception e"
  shows "m = ToolBox_calculate \<and> (\<exists>v. py_eval E v = Inl e)"
  using assms
  by (cases m)
     (auto split: sum.splits dest: bind_arguments_Inl search_web_Inl calculate_Inl)

lemma json_dumps_Inl: "json_dumps E v = Inl e \<Longrightarrow> is_Exception e"
  by (auto simp: json_dumps_def split: if_splits)

lemma get_tool_function_Inl: "get_tool_function E n = Inl e \<Longrightarrow> is_Exception e"
  by (auto simp: get_tool_function_def split: option.splits if_splits)




text \<open>
  Raw arguments that are JSON but not an object: \<open>json.loads\<close> returns, and the call
  \<open>tool_function(**function_args)\<close> raises \<open>TypeError\<close> inside the inner \<open>try\<close>.
\<close>

lemma execute_tool_not_a_mapping:
  assumes "\<forall>kw. function_args \<noteq> PDict kw"
  shows "\<exists>e. execute_tool E k n function_args = Inl e \<and> is_Exception e"
proof (cases "get_tool_function E n")
  case (Inl e)
  then show ?thesis
    using get_tool_function_Inl[OF Inl] by (auto simp: execute_tool_def)
next
  case (Inr f)
  with assms show ?thesis
    by (cases function_args) (auto simp: execute_tool_def call_attribute_def)
qed

subsection \<open>The for loop\<close>

lemma execute_tool_calls_keeps:
  "execute_tool_calls E tcs self w = (r, self', w') \<Longrightarrow>
     max_history self' = max_history self \<and> system_prompt self' = system_prompt self
     \<and> model self' = model self \<and> api_key self' = api_key self
     \<and> api_calls w' = api_calls w
     \<and> (system_first self \<longrightarrow> system_first self')"
proof (induction tcs arbitrary: self w)
  case Nil
  then show ?case by simp
next
  case (Cons tc rest)
  show ?case
  proof (cases "json_loads E (function_arguments tc)")
    case (Inl e)
    with Cons.prems show ?thesis by simp
  next
    case (Inr function_args)
    show ?thesis
    proof (cases "tool_result_str E (tool_runs w) (function_name tc) function_args")
      case (Inl e)
      with Inr Cons.prems show ?thesis by auto
    next
      case s: (Inr s)
      from Cons.prems Inr s
      have "execute_tool_calls E rest (append_message self (tool_message tc s))
              (w\<lparr>tool_runs := tool_runs w + 1\<rparr>) = (r, self', w')" by simp
      from Cons.IH[OF this] show ?thesis
        by (simp add: append_message_system_first)
    qed
  qed
qed


lemma execute_tool_calls_failed_call:
  assumes "json_loads E (function_arguments tc) = Inr function_args"
      and "execute_tool E (tool_runs w) (function_name tc) function_args = Inl e"
      and "is_Exception e"
  shows "execute_tool_calls E (tc # rest) self w =
           execute_tool_calls E rest
             (append_message self (tool_message tc (json_encode E (error_result e))))
             (w\<lparr>tool_runs := tool_runs w + 1\<rparr>)"
  using assms by (simp add: tool_result_str_error)

lemma execute_tool_calls_not_a_mapping:
  assumes "json_loads E (function_arguments tc) = Inr function_args"
      and "\<forall>kw. function_args \<noteq> PDict kw"
  shows "\<exists>e. execute_tool_calls E (tc # rest) self w =
               execute_tool_calls E rest
                 (append_message self (tool_message tc (json_encode E (error_result e))))
                 (w\<lparr>tool_runs := tool_runs w + 1\<rparr>)"
  using execute_tool_not_a_mapping[OF assms(2)] execute_tool_calls_failed_call[OF assms(1)]
  by blast

text \<open>
  What the for loop appends when every raw argument string deserializes and no
  invocation raises outside \<open>Exception\<close>.
\<close>

lemma execute_tool_calls_appends:
  assumes "\<forall>tc \<in> set tcs. \<exists>args.
             json_loads E (function_arguments tc) = Inr args
             \<and> (\<forall>k e. execute_tool E k (function_name tc) args = Inl e \<longrightarrow> is_Exception e)"
  shows "\<exists>msgs. execute_tool_calls E tcs self w =
                  (None, self\<lparr>conversation_history := conversation_history self @ msgs\<rparr>,
                   w\<lparr>tool_runs := tool_runs w + length tcs\<rparr>)
           \<and> length msgs = length tcs
           \<and> (\<forall>i < length tcs. \<exists>result_str.
                 msgs ! i = tool_message (tcs ! i) result_str
                 \<and> (\<forall>args e.
                       json_loads E (function_arguments (tcs ! i)) = Inr args
                       \<longrightarrow> execute_tool E (tool_runs w + i) (function_name (tcs ! i)) args = Inl e
                       \<longrightarrow> result_str = json_encode E (error_result e)))"
  using assms
proof (induction tcs arbitrary: self w)
  case Nil
  then show ?case by simp
next
  case (Cons tc rest)
  from Cons.prems obtain function_args where
    fa: "json_loads E (function_arguments tc) = Inr function_args"
    and ok: "\<And>k e. execute_tool E k (function_name tc) function_args = Inl e \<Longrightarrow> is_Exception e"
    by auto
  obtain s where s: "tool_result_str E (tool_runs w) (function_name tc) function_args = Inr s"
    using tool_result_str_total[of E "tool_runs w" "function_name tc" function_args] ok by blast
  let ?self1 = "append_message self (tool_message tc s)"
  let ?w1 = "w\<lparr>tool_runs := tool_runs w + 1\<rparr>"
  from Cons.prems have
    "\<forall>tc \<in> set rest. \<exists>args.
        json_loads E (function_arguments tc) = Inr args
        \<and> (\<forall>k e. execute_tool E k (function_name tc) args = Inl e \<longrightarrow> is_Exception e)"
    by simp
  from Cons.IH[OF this, of ?self1 ?w1] obtain msgs where
    run: "execute_tool_calls E rest ?self1 ?w1 =
            (None, ?self1\<lparr>conversation_history := conversation_history ?self1 @ msgs\<rparr>,
             ?w1\<lparr>tool_runs := tool_runs ?w1 + length rest\<rparr>)"
    and len: "length msgs = length rest"
    and each: "\<forall>i < length rest. \<exists>result_str.
                 msgs ! i = tool_message (rest ! i) result_str
                 \<and> (\<forall>args e.
                       json_loads E (function_arguments (rest ! i)) = Inr args
                       \<longrightarrow> execute_tool E (tool_runs ?w1 + i) (function_name (rest ! i)) args = Inl e
                       \<longrightarrow> result_str = json_encode E (error_result e))"
    by blast
  have head: "\<forall>args e. json_loads E (function_arguments tc) = Inr args
                \<longrightarrow> execute_tool E (tool_runs w) (function_name tc) args = Inl e
                \<longrightarrow> s = json_encode E (error_result e)"
  proof (intro allI impI)
    fix args e
    assume "json_loads E (function_arguments tc) = Inr args"
       and x: "execute_tool E (tool_runs w) (function_name tc) args = Inl e"
    with fa have a: "args = function_args" by simp
    with x ok have "is_Exception e" by blast
    from tool_result_str_error[OF x this] s a show "s = json_encode E (error_result e)" by simp
  qed
  have "execute_tool_calls E (tc # rest) self w =
          (None, self\<lparr>conversation_history := conversation_history self @ (tool_message tc s # msgs)\<rparr>,
           w\<lparr>tool_runs := tool_runs w + length (tc # rest)\<rparr>)"
    using fa s run by (simp add: append_message_def)
  moreover have "length (tool_message tc s # msgs) = length (tc # rest)"
    using len by simp
  moreover have "\<forall>i < length (tc # rest). \<exists>result_str.
                 (tool_message tc s # msgs) ! i = tool_message ((tc # rest) ! i) result_str
                 \<and> (\<forall>args e.
                       json_loads E (function_arguments ((tc # rest) ! i)) = Inr args
                       \<longrightarrow> execute_tool E (tool_runs w + i) (function_name ((tc # rest) ! i)) args = Inl e
                       \<longrightarrow> result_str = json_encode E (error_result e))"
  proof (intro allI impI)
    fix i assume i: "i < length (tc # rest)"
    show "\<exists>result_str.
                 (tool_message tc s # msgs) ! i = tool_message ((tc # rest) ! i) result_str
                 \<and> (\<forall>args e.
                       json_loads E (function_arguments ((tc # rest) ! i)) = Inr args
                       \<longrightarrow> execute_tool E (tool_runs w + i) (function_name ((tc # rest) ! i)) args = Inl e
                       \<longrightarrow> result_str = json_encode E (error_result e))"
    proof (cases i)
      case 0
      with head show ?thesis by (auto intro!: exI[of _ s])
    next
      case (Suc j)
      with i have "j < length rest" by simp
      with each Suc show ?thesis by simp
    qed
  qed
  ultimately show ?case by blast
qed

subsection \<open>One pass\<close>

lemma try_body_Continue:
  assumes "try_body E self w = Continue self' w'"
  shows "same_settings self self' \<and> api_calls w' = api_calls w + 1
         \<and> (system_first self \<longrightarrow> system_first self')"
proof -
  from assms obtain am tcs where
    run: "execute_tool_calls E tcs (append_message self (assistant_tool_call_message am))
            (w\<lparr>api_calls := api_calls w + 1\<rparr>) = (None, self', w')"
    by (auto simp: try_body_def Let_def
             split: sum.splits list.splits if_splits prod.splits option.splits)
  from execute_tool_calls_keeps[OF run] show ?thesis
    by (simp add: same_settings_def append_message_system_first)
qed

lemma try_body_Raise:
  assumes "try_body E self w = Raise e self' w'"
  shows "same_settings self self' \<and> api_calls w' = api_calls w + 1
         \<and> (system_first self \<longrightarrow> system_first self')"
proof -
  from assms consider
      (backend) "self' = self" "w' = w\<lparr>api_calls := api_calls w + 1\<rparr>"
    | (tools) am tcs where
        "execute_tool_calls E tcs (append_message self (assistant_tool_call_message am))
            (w\<lparr>api_calls := api_calls w + 1\<rparr>) = (Some e, self', w')"
    by (auto simp: try_body_def Let_def
             split: sum.splits list.splits if_splits prod.splits option.splits)
  then show ?thesis
  proof cases
    case backend
    then show ?thesis by (simp add: same_settings_def)
  next
    case tools
    from execute_tool_calls_keeps[OF tools] show ?thesis
      by (simp add: same_settings_def append_message_system_first)
  qed
qed


lemma try_body_Return:
  assumes "try_body E self w = Return response self' w'"
  shows "self' = add_message self ''assistant'' response None
         \<and> w' = w\<lparr>api_calls := api_calls w + 1\<rparr>"
  using assms
  by (auto simp: try_body_def Let_def
           split: sum.splits list.splits if_splits prod.splits option.splits)



text \<open>A pass whose first tool call has arguments that json.loads rejects.\<close>

lemma try_body_malformed_arguments:
  assumes "chat_completions_create E (api_calls w) (model self) (conversation_history self)
             TOOL_SCHEMAS ''auto'' = Inr (c # cs)"
      and "finish_reason c = ''tool_calls''"
      and "am_tool_calls (choice_message c) = Some (tc # rest)"
      and "json_loads E (function_arguments tc) = Inl e"
  shows "try_body E self w =
           Raise e (append_message self (assistant_tool_call_message (choice_message c)))
                 (w\<lparr>api_calls := api_calls w + 1\<rparr>)"
  using assms by (simp add: try_body_def Let_def tool_calls_truthy_def)

lemma try_body_tool_calls:
  assumes "chat_completions_create E (api_calls w) (model self) (conversation_history self)
             TOOL_SCHEMAS ''auto'' = Inr (c # cs)"
      and "finish_reason c = ''tool_calls''"
      and "am_tool_calls (choice_message c) = Some tcs" and "tcs \<noteq> []"
      and "execute_tool_calls E tcs (append_message self (assistant_tool_call_message (choice_message c)))
             (w\<lparr>api_calls := api_calls w + 1\<rparr>) = (None, self', w')"
  shows "try_body E self w = Continue self' w'"
  using assms by (simp add: try_body_def Let_def tool_calls_truthy_def)

lemma try_body_tool_calls_Continue:
  assumes "chat_completions_create E (api_calls w) (model self) (conversation_history self)
             TOOL_SCHEMAS ''auto'' = Inr (c # cs)"
      and "finish_reason c = ''tool_calls''"
      and "am_tool_calls (choice_message c) = Some tcs" and "tcs \<noteq> []"
      and "\<forall>tc \<in> set tcs. \<exists>args.
             json_loads E (function_arguments tc) = Inr args
             \<and> (\<forall>k e. execute_tool E k (function_name tc) args = Inl e \<longrightarrow> is_Exception e)"
  shows "\<exists>self' w'. try_body E self w = Continue self' w'"
proof -
  from execute_tool_calls_appends[OF assms(5)] obtain self' w' where
    "execute_tool_calls E tcs (append_message self (assistant_tool_call_message (choice_message c)))
             (w\<lparr>api_calls := api_calls w + 1\<rparr>) = (None, self', w')"
    by blast
  from try_body_tool_calls[OF assms(1-4) this] show ?thesis by blast
qed

subsection \<open>The while loop\<close>

lemma agentic_loop_Continue:
  "iteration < max_iterations \<Longrightarrow> try_body E self w = Continue self' w' \<Longrightarrow>
   agentic_loop E iteration self w = agentic_loop E (iteration + 1) self' w'"
  by (simp add: agentic_loop.simps[of E iteration self w])

lemma agentic_loop_Return:
  "iteration < max_iterations \<Longrightarrow> try_body E self w = Return response self' w' \<Longrightarrow>
   agentic_loop E iteration self w = (Inr response, self', w')"
  by (simp add: agentic_loop.simps[of E iteration self w])

lemma agentic_loop_Raise:
  "iteration < max_iterations \<Longrightarrow> try_body E self w = Raise e self' w' \<Longrightarrow>
   is_Exception e \<Longrightarrow>
   agentic_loop E iteration self w =
     (Inr error_response, add_message self' ''assistant'' error_response None, w')"
  by (simp add: agentic_loop.simps[of E iteration self w])

lemma agentic_loop_Raise_passes:
  "iteration < max_iterations \<Longrightarrow> try_body E self w = Raise e self' w' \<Longrightarrow>
   \<not> is_Exception e \<Longrightarrow>
   agentic_loop E iteration self w = (Inl e, self', w')"
  by (simp add: agentic_loop.simps[of E iteration self w])

lemma agentic_loop_exhausted:
  "\<not> iteration < max_iterations \<Longrightarrow>
   agentic_loop E iteration self w =
     (Inr timeout_response, add_message self ''assistant'' timeout_response None, w)"
  by (simp add: agentic_loop.simps[of E iteration self w])

text \<open>
  What every run of the loop keeps, and what it has done when it returns a string.
\<close>

lemma agentic_loop_result:
  assumes "agentic_loop E iteration self w = (r, self', w')"
  shows "same_settings self self'
         \<and> (system_first self \<longrightarrow> system_first self')
         \<and> api_calls w' \<le> api_calls w + (max_iterations - iteration)
         \<and> (\<forall>response. r = Inr response \<longrightarrow>
               (\<exists>self''. self' = add_message self'' ''assistant'' response None
                         \<and> same_settings self self''
                         \<and> (system_first self \<longrightarrow> system_first self'')))"
  using assms
proof (induction E iteration self w rule: agentic_loop.induct)
  case (1 E iteration self w)
  show ?case
  proof (cases "iteration < max_iterations")
    case False
    with "1.prems" show ?thesis
      by (auto simp: agentic_loop_exhausted add_message_system_first)
  next
    case True
    show ?thesis
    proof (cases "try_body E self w")
      case (Continue a1 w1)
      with True "1.prems" have "agentic_loop E (iteration + 1) a1 w1 = (r, self', w')"
        by (simp add: agentic_loop_Continue)
      from "1.IH"[OF True Continue this] try_body_Continue[OF Continue] True
      show ?thesis
        by (auto intro: same_settings_trans)
    next
      case (Return s a1 w1)
      with True "1.prems" try_body_Return[OF Return] show ?thesis
        by (auto simp: agentic_loop_Return add_message_system_first)
    next
      case (Raise e a1 w1)
      show ?thesis
      proof (cases "is_Exception e")
        case yes: True
        with True "1.prems" Raise try_body_Raise[OF Raise] show ?thesis
          by (auto simp: agentic_loop_Raise add_message_system_first)
      next
        case no: False
        with True "1.prems" Raise try_body_Raise[OF Raise] show ?thesis
          by (auto simp: agentic_loop_Raise_passes)
      qed
    qed
  qed
qed




lemma process_user_input_malformed_arguments:
  assumes "chat_completions_create E (api_calls w) (model self)
             (conversation_history (add_message self ''user'' user_input None))
             TOOL_SCHEMAS ''auto'' = Inr (c # cs)"
      and "finish_reason c = ''tool_calls''"
      and "am_tool_calls (choice_message c) = Some (tc # rest)"
      and "json_loads E (function_arguments tc) = Inl e"
      and "is_Exception e"
  shows "process_user_input E self w user_input =
           (Inr error_response,
            add_message
              (append_message (add_message self ''user'' user_input None)
                 (assistant_tool_call_message (choice_message c)))
              ''assistant'' error_response None,
            w\<lparr>api_calls := api_calls w + 1\<rparr>)"
proof -
  let ?a = "add_message self ''user'' user_input None"
  have "try_body E ?a w =
          Raise e (append_message ?a (assistant_tool_call_message (choice_message c)))
                (w\<lparr>api_calls := api_calls w + 1\<rparr>)"
    using assms(1-4) by (intro try_body_malformed_arguments) simp_all
  then show ?thesis
    using assms(5) by (simp add: process_user_input_def agentic_loop_Raise max_iterations_def)
qed

lemma agentic_loop_all_tool_calls:
  assumes "\<forall>n msgs. \<exists>c cs tcs.
             chat_completions_create E n m msgs TOOL_SCHEMAS ''auto'' = Inr (c # cs)
             \<and> finish_reason c = ''tool_calls''
             \<and> am_tool_calls (choice_message c) = Some tcs \<and> tcs \<noteq> []
             \<and> (\<forall>tc \<in> set tcs. \<exists>args.
                   json_loads E (function_arguments tc) = Inr args
                   \<and> (\<forall>k e. execute_tool E k (function_name tc) args = Inl e
                              \<longrightarrow> is_Exception e))"
      and "model self = m"
  shows "\<exists>self'' w'.
           agentic_loop E iteration self w =
             (Inr timeout_response, add_message self'' ''assistant'' timeout_response None, w')
           \<and> api_calls w' = api_calls w + (max_iterations - iteration)"
  using assms
proof (induction E iteration self w rule: agentic_loop.induct)
  case (1 E iteration self w)
  show ?case
  proof (cases "iteration < max_iterations")
    case False
    then show ?thesis by (auto simp: agentic_loop_exhausted)
  next
    case True
    from "1.prems" obtain c cs tcs where
      r: "chat_completions_create E (api_calls w) (model self) (conversation_history self)
            TOOL_SCHEMAS ''auto'' = Inr (c # cs)"
         "finish_reason c = ''tool_calls''"
         "am_tool_calls (choice_message c) = Some tcs" "tcs \<noteq> []"
         "\<forall>tc \<in> set tcs. \<exists>args.
             json_loads E (function_arguments tc) = Inr args
             \<and> (\<forall>k e. execute_tool E k (function_name tc) args = Inl e \<longrightarrow> is_Exception e)"
      by metis
    from try_body_tool_calls_Continue[OF r] obtain self1 w1 where
      step: "try_body E self w = Continue self1 w1" by blast
    from try_body_Continue[OF step] "1.prems"(2) have
      keep: "model self1 = m" "api_calls w1 = api_calls w + 1"
      by (simp_all add: same_settings_def)
    from "1.IH"[OF True step "1.prems"(1) keep(1)] obtain self'' w' where
      "agentic_loop E (iteration + 1) self1 w1 =
             (Inr timeout_response, add_message self'' ''assistant'' timeout_response None, w')"
      "api_calls w' = api_calls w1 + (max_iterations - (iteration + 1))"
      by blast
    with True step keep show ?thesis
      by (auto simp: agentic_loop_Continue)
  qed
qed

subsection \<open>The disabled tool\<close>

lemma execute_system_command_status [simp]:
  "py_get (execute_system_command command) ''status'' = Some (PStr ''error'')"
  by (simp add: execute_system_command_def)

lemma error_result_status [simp]: "py_get (error_result e) ''status'' = Some (PStr ''error'')"
  by (simp add: error_result_def)

lemma call_method_execute_system_command:
  "(\<exists>e. call_method E k ToolBox_execute_system_command kw = Inl e \<and> is_Exception e)
   \<or> (\<exists>command. call_method E k ToolBox_execute_system_command kw
                    = Inr (execute_system_command command))"
  by (auto split: sum.splits dest: bind_arguments_Inl)

lemma execute_tool_execute_system_command_Inl:
  assumes "execute_tool E k ''execute_system_command'' function_args = Inl e"
  shows "is_Exception e"
proof (rule ccontr)
  assume no: "\<not> is_Exception e"
  have g: "get_tool_function E ''execute_system_command''
             = Inr (StaticMethod ToolBox_execute_system_command)"
    by (simp add: get_tool_function_def ToolBox_dict_def)
  from assms no g json_dumps_Inl have
    "call_attribute E k (StaticMethod ToolBox_execute_system_command) function_args = Inl e"
    by (auto simp: execute_tool_Inl_iff)
  then obtain kw where "call_method E k ToolBox_execute_system_command kw = Inl e"
    using no by (auto simp: call_attribute_def split: pyval.splits)
  with call_method_Inl[OF this no] show False by simp
qed

lemma tool_result_str_execute_system_command:
  "\<exists>d. tool_result_str E k ''execute_system_command'' function_args = Inr (json_encode E d)
       \<and> py_get d ''status'' = Some (PStr ''error'')"
proof (cases "execute_tool E k ''execute_system_command'' function_args")
  case (Inl e)
  then have "tool_result_str E k ''execute_system_command'' function_args
               = Inr (json_encode E (error_result e))"
    using execute_tool_execute_system_command_Inl[OF Inl] by (rule tool_result_str_error)
  then show ?thesis using error_result_status by blast
next
  case (Inr s)
  have g: "get_tool_function E ''execute_system_command''
             = Inr (StaticMethod ToolBox_execute_system_command)"
    by (simp add: get_tool_function_def ToolBox_dict_def)
  from Inr g obtain kw r where
    "function_args = PDict kw"
    "call_method E k ToolBox_execute_system_command kw = Inr r"
    "json_dumps E r = Inr s"
    by (auto simp: execute_tool_def call_attribute_def split: sum.splits pyval.splits)
  moreover from this(2) call_method_execute_system_command[of E k kw] obtain command where
    "r = execute_system_command command" by auto
  ultimately have "s = json_encode E (execute_system_command command)"
    by (auto simp: json_dumps_def split: if_splits)
  with Inr show ?thesis
    using execute_system_command_status by (auto simp: tool_result_str_def)
qed

section \<open>Conversation state\<close>


text \<open>
  C2 (as amended). With \<open>max_history\<close> at least 1 and the system message at position 0:
  after every append made through \<open>add_message\<close> (the user message, and the assistant
  message that ends a turn) the history has at most \<open>1 + max_history\<close> entries and
  position 0 is still the system message; the direct append used for the assistant
  message that carries the tool calls, and for tool results, leaves position 0 as it
  is; after \<open>process_user_input\<close> the system message is still first, and when
  \<open>process_user_input\<close> returns, the history is within the bound.
\<close>

theorem add_message_trims_history:
  assumes "1 \<le> max_history self" and "system_first self"
  shows "int (length (conversation_history (add_message self a_role a_content a_name)))
           \<le> 1 + max_history self
       \<and> system_first (add_message self a_role a_content a_name)
       \<and> system_first (append_message self msg)
       \<and> system_first (fst (snd (process_user_input E self w user_input)))
       \<and> (\<forall>response.
             fst (process_user_input E self w user_input) = Inr response
             \<longrightarrow> int (length (conversation_history
                         (fst (snd (process_user_input E self w user_input)))))
                   \<le> 1 + max_history self)"
proof -
  obtain r self' w' where
    run: "agentic_loop E 0 (add_message self ''user'' user_input None) w = (r, self', w')"
    by (metis prod_cases3)
  from agentic_loop_result[OF run] assms(2) have first: "system_first self'"
    by (simp add: add_message_system_first)
  have bound: "int (length (conversation_history self')) \<le> 1 + max_history self"
    if "r = Inr response" for response
  proof -
    from agentic_loop_result[OF run] that obtain self'' where
      s: "self' = add_message self'' ''assistant'' response None"
         "same_settings (add_message self ''user'' user_input None) self''"
      by blast
    from s(2) assms(1) have "1 \<le> max_history self''" "max_history self'' = max_history self"
      by (simp_all add: same_settings_def)
    with add_message_length[of self''] s(1) show ?thesis by simp
  qed
  from run first bound assms show ?thesis
    by (simp add: process_user_input_def add_message_length add_message_system_first
          append_message_system_first)
qed

lemma trimmed_round_trip:
  "process_user_input
      (test_env (scripted [completion None (Some [time_call ''{}'']) ''tool_calls'',
                           completion (Some ''It's 2:30 PM.'') None ''stop'']))
      (test_agent 1) world0 ''What time is it?''
   = (Inr ''It's 2:30 PM.'',
      (test_agent 1)\<lparr>conversation_history :=
         [system_message ''You are a test assistant.'', assistant_text ''It's 2:30 PM.'']\<rparr>,
      \<lparr>api_calls = 2, tool_runs = 1\<rparr>)"
proof -
  let ?E = "test_env (scripted [completion None (Some [time_call ''{}'']) ''tool_calls'',
                           completion (Some ''It's 2:30 PM.'') None ''stop''])"
  let ?sys = "system_message ''You are a test assistant.''"
  let ?user = "user_text ''What time is it?''"
  let ?asst = "\<lparr>role = ''assistant'', content = None, name = None, tool_call_id = None,
                tool_calls = Some [time_call ''{}'']\<rparr>"
  let ?tool = "tool_message (time_call ''{}'')
                 (plain_json (get_current_time ?E 0 (PStr ''local'')))"
  let ?self0 = "(test_agent 1)\<lparr>conversation_history := [?sys, ?user]\<rparr>"
  let ?self1 = "(test_agent 1)\<lparr>conversation_history := [?sys, ?user, ?asst, ?tool]\<rparr>"
  let ?w1 = "\<lparr>api_calls = 1, tool_runs = 1\<rparr>"
  have user: "add_message (test_agent 1) ''user'' ''What time is it?'' None = ?self0"
    by (simp add: add_message_def Let_def user_text_def test_agent_def)
  have pass1: "try_body ?E ?self0 world0 = Continue ?self1 ?w1"
    by (simp add: try_body_def append_message_def assistant_tool_call_message_def Let_def
          test_agent_def world0_def test_env_def scripted_def completion_def
          time_call_def tool_calls_truthy_def test_json_loads_def tool_result_str_def
          execute_tool_def get_tool_function_def ToolBox_dict_def call_attribute_def
          bind_arguments_def json_dumps_def get_current_time_def tool_message_def)
  have pass2: "try_body ?E ?self1 ?w1 =
                 Return ''It's 2:30 PM.'' (add_message ?self1 ''assistant'' ''It's 2:30 PM.'' None)
                   \<lparr>api_calls = 2, tool_runs = 1\<rparr>"
    by (simp add: try_body_def Let_def test_env_def scripted_def completion_def)
  have final: "add_message ?self1 ''assistant'' ''It's 2:30 PM.'' None =
                 (test_agent 1)\<lparr>conversation_history := [?sys, assistant_text ''It's 2:30 PM.'']\<rparr>"
    by (simp add: add_message_def Let_def assistant_text_def test_agent_def py_slice_from_def)
  have "agentic_loop ?E 0 ?self0 world0 = agentic_loop ?E (0 + 1) ?self1 ?w1"
    by (rule agentic_loop_Continue[OF _ pass1]) (simp add: max_iterations_def)
  also have "\<dots> = (Inr ''It's 2:30 PM.'', add_message ?self1 ''assistant'' ''It's 2:30 PM.'' None,
                     \<lparr>api_calls = 2, tool_runs = 1\<rparr>)"
    by (rule agentic_loop_Return[OF _ pass2]) (simp add: max_iterations_def)
  finally show ?thesis
    using user final by (simp add: process_user_input_def)
qed

theorem add_message_trims_history_witness:
  "1 \<le> max_history (test_agent 1) \<and> system_first (test_agent 1)
   \<and> int (length (conversation_history (add_message (test_agent 1) ''user'' ''What time is it?'' None)))
        \<le> 1 + max_history (test_agent 1)
   \<and> system_first (add_message (test_agent 1) ''user'' ''What time is it?'' None)
   \<and> fst (process_user_input
          (test_env (scripted [completion None (Some [time_call ''{}'']) ''tool_calls'',
                               completion (Some ''It's 2:30 PM.'') None ''stop'']))
          (test_agent 1) world0 ''What time is it?'') = Inr ''It's 2:30 PM.''
   \<and> int (length (conversation_history (fst (snd (process_user_input
          (test_env (scripted [completion None (Some [time_call ''{}'']) ''tool_calls'',
                               completion (Some ''It's 2:30 PM.'') None ''stop'']))
          (test_agent 1) world0 ''What time is it?'')))))
        \<le> 1 + max_history (test_agent 1)"
proof -
  let ?E = "test_env (scripted [completion None (Some [time_call ''{}'']) ''tool_calls'',
                               completion (Some ''It's 2:30 PM.'') None ''stop''])"
  have h1: "1 \<le> max_history (test_agent 1)" by (simp add: test_agent_def)
  have h2: "system_first (test_agent 1)" by (simp add: test_agent_def system_first_def)
  have r: "fst (process_user_input ?E (test_agent 1) world0 ''What time is it?'')
             = Inr ''It's 2:30 PM.''"
    by (simp add: trimmed_round_trip)
  from add_message_trims_history[OF h1 h2, of "''user''" "''What time is it?''" None
          "user_text []" ?E world0 "''What time is it?''"] r h1 h2
  show ?thesis by blast
qed

text \<open>
  C2 as stated fails: the assistant message that carries the tool calls is appended to
  the list directly, with no trimming. With \<open>max_history = 1\<close>, after the user message
  the history has two entries, after that assistant message three, and four when the
  pass ends, against a bound of two.
\<close>

theorem tool_call_message_exceeds_bound:
  "conversation_history
     (append_message (add_message (test_agent 1) ''user'' ''What time is it?'' None)
        (assistant_tool_call_message
           \<lparr>am_content = None, am_tool_calls = Some [time_call ''{}'']\<rparr>))
   = [system_message ''You are a test assistant.'',
      user_text ''What time is it?'',
      \<lparr>role = ''assistant'', content = None, name = None, tool_call_id = None,
       tool_calls = Some [time_call ''{}'']\<rparr>]
   \<and> try_body (test_env (scripted [completion None (Some [time_call ''{}'']) ''tool_calls'']))
        (add_message (test_agent 1) ''user'' ''What time is it?'' None) world0
     = Continue
         ((test_agent 1)\<lparr>conversation_history :=
            [system_message ''You are a test assistant.'',
             user_text ''What time is it?'',
             \<lparr>role = ''assistant'', content = None, name = None, tool_call_id = None,
              tool_calls = Some [time_call ''{}'']\<rparr>,
             tool_message (time_call ''{}'')
               (plain_json (get_current_time (test_env (scripted [])) 0 (PStr ''local'')))]\<rparr>)
         \<lparr>api_calls = 1, tool_runs = 1\<rparr>
   \<and> \<not> int (length (conversation_history
        (append_message (add_message (test_agent 1) ''user'' ''What time is it?'' None)
           (assistant_tool_call_message
              \<lparr>am_content = None, am_tool_calls = Some [time_call ''{}'']\<rparr>))))
         \<le> 1 + max_history (test_agent 1)"
  by (simp add: try_body_def add_message_def append_message_def assistant_tool_call_message_def Let_def
          test_agent_def world0_def user_text_def test_env_def scripted_def completion_def
          time_call_def tool_calls_truthy_def test_json_loads_def tool_result_str_def execute_tool_def
          get_tool_function_def ToolBox_dict_def call_attribute_def bind_arguments_def
          json_dumps_def get_current_time_def tool_message_def)

section \<open>The agentic loop\<close>

text \<open>
  C1. The code at the failing input: the backend requests \<open>get_current_time\<close> with the
  raw arguments \<open>{\<close>, which \<open>json.loads\<close> rejects. No tool message is appended; the
  turn ends at once with the error response of the outer handler, after one request,
  and the assistant message with the tool call is left in the history without a result.
\<close>

theorem malformed_arguments_end_the_turn:
  "process_user_input
      (test_env (scripted [completion None (Some [time_call ''{'']) ''tool_calls'']))
      (test_agent 20) world0 ''What time is it?''
   = (Inr error_response,
      (test_agent 20)\<lparr>conversation_history :=
         [system_message ''You are a test assistant.'',
          user_text ''What time is it?'',
          \<lparr>role = ''assistant'', content = None, name = None, tool_call_id = None,
           tool_calls = Some [time_call ''{'']\<rparr>,
          assistant_text error_response]\<rparr>,
      \<lparr>api_calls = 1, tool_runs = 0\<rparr>)"
proof -
  let ?E = "test_env (scripted [completion None (Some [time_call ''{'']) ''tool_calls''])"
  let ?am = "\<lparr>am_content = None, am_tool_calls = Some [time_call ''{'']\<rparr>"
  have "process_user_input ?E (test_agent 20) world0 ''What time is it?'' =
           (Inr error_response,
            add_message
              (append_message (add_message (test_agent 20) ''user'' ''What time is it?'' None)
                 (assistant_tool_call_message ?am))
              ''assistant'' error_response None,
            world0\<lparr>api_calls := api_calls world0 + 1\<rparr>)"
    using process_user_input_malformed_arguments[where E = "?E" and self = "test_agent 20"
        and w = world0 and user_input = "''What time is it?''"
        and c = "\<lparr>choice_message = ?am, finish_reason = ''tool_calls''\<rparr>"
        and cs = "[]" and tc = "time_call ''{''" and rest = "[]"
        and e = "Exn ''JSONDecodeError''
               ''Expecting property name enclosed in double quotes: line 1 column 2 (char 1)''"]
    by (simp add: test_env_def scripted_def completion_def world0_def time_call_def
          test_json_loads_def)
  then show ?thesis
    by (simp add: add_message_def append_message_def assistant_tool_call_message_def Let_def
          test_agent_def world0_def user_text_def assistant_text_def)
qed





text \<open>
  C5 (as amended). If on every request the backend answers with the finish reason
  \<open>tool_calls\<close> and a non-empty list of tool calls whose raw arguments \<open>json.loads\<close>
  accepts and whose invocations raise nothing outside \<open>Exception\<close>, then
  \<open>process_user_input\<close> makes exactly \<open>max_iterations = 5\<close> requests, appends the fixed
  response of the exhausted budget through \<open>add_message\<close>, and returns it.
\<close>

theorem tool_calls_on_every_call_exhaust_the_budget:
  assumes "\<forall>n msgs. \<exists>c cs tcs.
             chat_completions_create E n (model self) msgs TOOL_SCHEMAS ''auto'' = Inr (c # cs)
             \<and> finish_reason c = ''tool_calls''
             \<and> am_tool_calls (choice_message c) = Some tcs \<and> tcs \<noteq> []
             \<and> (\<forall>tc \<in> set tcs. \<exists>args.
                   json_loads E (function_arguments tc) = Inr args
                   \<and> (\<forall>k e. execute_tool E k (function_name tc) args = Inl e
                              \<longrightarrow> is_Exception e))"
  shows "\<exists>self'' w'.
           process_user_input E self w user_input =
             (Inr timeout_response, add_message self'' ''assistant'' timeout_response None, w')
           \<and> api_calls w' = api_calls w + max_iterations
           \<and> max_iterations = 5"
proof -
  have "model (add_message self ''user'' user_input None) = model self" by simp
  from agentic_loop_all_tool_calls[OF assms this, of 0 w] show ?thesis
    by (simp add: process_user_input_def max_iterations_def)
qed

theorem tool_calls_on_every_call_exhaust_the_budget_witness:
  "(\<forall>n msgs. \<exists>c cs tcs.
       chat_completions_create (test_env (\<lambda>n. completion None (Some [time_call ''{}'']) ''tool_calls''))
          n (model (test_agent 20)) msgs TOOL_SCHEMAS ''auto'' = Inr (c # cs)
       \<and> finish_reason c = ''tool_calls''
       \<and> am_tool_calls (choice_message c) = Some tcs \<and> tcs \<noteq> []
       \<and> (\<forall>tc \<in> set tcs. \<exists>args.
             json_loads (test_env (\<lambda>n. completion None (Some [time_call ''{}'']) ''tool_calls''))
               (function_arguments tc) = Inr args
             \<and> (\<forall>k e. execute_tool
                          (test_env (\<lambda>n. completion None (Some [time_call ''{}'']) ''tool_calls''))
                          k (function_name tc) args = Inl e
                        \<longrightarrow> is_Exception e)))
   \<and> (\<exists>self'' w'.
         process_user_input (test_env (\<lambda>n. completion None (Some [time_call ''{}'']) ''tool_calls''))
           (test_agent 20) world0 ''What time is it?''
         = (Inr timeout_response, add_message self'' ''assistant'' timeout_response None, w')
         \<and> api_calls w' = 5)"
proof -
  let ?E = "test_env (\<lambda>n. completion None (Some [time_call ''{}'']) ''tool_calls'')"
  have h: "\<forall>n msgs. \<exists>c cs tcs.
             chat_completions_create ?E n (model (test_agent 20)) msgs TOOL_SCHEMAS ''auto'' = Inr (c # cs)
             \<and> finish_reason c = ''tool_calls''
             \<and> am_tool_calls (choice_message c) = Some tcs \<and> tcs \<noteq> []
             \<and> (\<forall>tc \<in> set tcs. \<exists>args.
                   json_loads ?E (function_arguments tc) = Inr args
                   \<and> (\<forall>k e. execute_tool ?E k (function_name tc) args = Inl e
                              \<longrightarrow> is_Exception e))"
    by (simp add: test_env_def completion_def time_call_def test_json_loads_def
          execute_tool_def get_tool_function_def ToolBox_dict_def call_attribute_def
          bind_arguments_def json_dumps_def get_current_time_def)
  from tool_calls_on_every_call_exhaust_the_budget[OF h, of world0 "''What time is it?''"]
  have "\<exists>self'' w'.
         process_user_input ?E (test_agent 20) world0 ''What time is it?''
         = (Inr timeout_response, add_message self'' ''assistant'' timeout_response None, w')
         \<and> api_calls w' = 5"
    by (auto simp: world0_def)
  with h show ?thesis by blast
qed

text \<open>
  C5 as stated fails: the first branch of the loop also tests that the list of tool
  calls is not empty. A backend that gives the finish reason \<open>tool_calls\<close> with no tool
  calls on every request is answered after one request, through the last branch.
\<close>

theorem tool_calls_reason_without_calls_counterexample:
  "process_user_input (test_env (\<lambda>n. completion None None ''tool_calls''))
      (test_agent 20) world0 ''What time is it?''
   = (Inr fallback,
      (test_agent 20)\<lparr>conversation_history :=
         [system_message ''You are a test assistant.'', user_text ''What time is it?'',
          assistant_text fallback]\<rparr>,
      \<lparr>api_calls = 1, tool_runs = 0\<rparr>)
   \<and> fallback \<noteq> timeout_response"
proof -
  let ?E = "test_env (\<lambda>n. completion None None ''tool_calls'')"
  let ?self = "add_message (test_agent 20) ''user'' ''What time is it?'' None"
  have "try_body ?E ?self world0 =
          Return fallback (add_message ?self ''assistant'' fallback None)
            (world0\<lparr>api_calls := api_calls world0 + 1\<rparr>)"
    by (simp add: try_body_def Let_def test_env_def completion_def tool_calls_truthy_def)
  then have "process_user_input ?E (test_agent 20) world0 ''What time is it?'' =
          (Inr fallback, add_message ?self ''assistant'' fallback None,
            world0\<lparr>api_calls := api_calls world0 + 1\<rparr>)"
    by (simp add: process_user_input_def agentic_loop_Return max_iterations_def)
  then show ?thesis
    by (simp add: add_message_def Let_def test_agent_def user_text_def assistant_text_def
          world0_def fallback_def timeout_response_def)
qed

text \<open>
  C6. The round trip. The agent holds only the system message
  \<open>You are a test assistant.\<close> (and \<open>max_history\<close> leaves room for the five messages
  of the turn); the user says \<open>What time is it?\<close>; the backend answers the first
  request with a tool call of \<open>get_current_time\<close> whose raw arguments deserialize to the
  empty dict, and the second request with the finish reason \<open>stop\<close> and the text
  \<open>It's 2:30 PM.\<close> Then \<open>process_user_input\<close> returns exactly that text after two
  requests, and the history is: system, user, assistant with the tool call, tool with
  the serialized result of \<open>get_current_time\<close>, assistant with the text.
\<close>

theorem round_trip_get_current_time:
  assumes hist: "conversation_history self = [system_message ''You are a test assistant.'']"
      and room: "4 \<le> max_history self"
      and tc: "function_name tc = ''get_current_time''"
              "json_loads E (function_arguments tc) = Inr (PDict [])"
      and first:
        "chat_completions_create E (api_calls w) (model self)
           [system_message ''You are a test assistant.'', user_text ''What time is it?'']
           TOOL_SCHEMAS ''auto''
         = completion first_text (Some [tc]) ''tool_calls''"
      and second:
        "chat_completions_create E (api_calls w + 1) (model self)
           [system_message ''You are a test assistant.'', user_text ''What time is it?'',
            \<lparr>role = ''assistant'', content = first_text, name = None, tool_call_id = None,
             tool_calls = Some [tc]\<rparr>,
            \<lparr>role = ''tool'',
             content = Some (json_encode E (get_current_time E (tool_runs w) (PStr ''local''))),
             name = Some ''get_current_time'', tool_call_id = Some (tc_id tc),
             tool_calls = None\<rparr>]
           TOOL_SCHEMAS ''auto''
         = completion (Some ''It's 2:30 PM.'') last_calls ''stop''"
  shows "process_user_input E self w ''What time is it?'' =
           (Inr ''It's 2:30 PM.'',
            self\<lparr>conversation_history :=
              [system_message ''You are a test assistant.'', user_text ''What time is it?'',
               \<lparr>role = ''assistant'', content = first_text, name = None, tool_call_id = None,
                tool_calls = Some [tc]\<rparr>,
               \<lparr>role = ''tool'',
                content = Some (json_encode E (get_current_time E (tool_runs w) (PStr ''local''))),
                name = Some ''get_current_time'', tool_call_id = Some (tc_id tc),
                tool_calls = None\<rparr>,
               assistant_text ''It's 2:30 PM.'']\<rparr>,
            w\<lparr>api_calls := api_calls w + 2, tool_runs := tool_runs w + 1\<rparr>)"
proof -
  let ?sys = "system_message ''You are a test assistant.''"
  let ?user = "user_text ''What time is it?''"
  let ?asst = "\<lparr>role = ''assistant'', content = first_text, name = None, tool_call_id = None,
                tool_calls = Some [tc]\<rparr>"
  let ?tool = "\<lparr>role = ''tool'',
                content = Some (json_encode E (get_current_time E (tool_runs w) (PStr ''local''))),
                name = Some ''get_current_time'', tool_call_id = Some (tc_id tc),
                tool_calls = None\<rparr>"
  let ?self0 = "self\<lparr>conversation_history := [?sys, ?user]\<rparr>"
  let ?self1 = "self\<lparr>conversation_history := [?sys, ?user, ?asst, ?tool]\<rparr>"
  let ?w1 = "w\<lparr>api_calls := api_calls w + 1, tool_runs := tool_runs w + 1\<rparr>"
  have user: "add_message self ''user'' ''What time is it?'' None = ?self0"
    using hist room by (simp add: add_message_def Let_def user_text_def)
  have result: "tool_result_str E (tool_runs w) ''get_current_time'' (PDict []) =
                  Inr (json_encode E (get_current_time E (tool_runs w) (PStr ''local'')))"
    by (simp add: tool_result_str_def execute_tool_def get_tool_function_def ToolBox_dict_def
          call_attribute_def bind_arguments_def json_dumps_def get_current_time_def)
  have pass1: "try_body E ?self0 w = Continue ?self1 ?w1"
    using first tc result
    by (simp add: try_body_def Let_def completion_def tool_calls_truthy_def append_message_def
          assistant_tool_call_message_def tool_message_def)
  have pass2: "try_body E ?self1 ?w1 =
                 Return ''It's 2:30 PM.'' (add_message ?self1 ''assistant'' ''It's 2:30 PM.'' None)
                   (?w1\<lparr>api_calls := api_calls ?w1 + 1\<rparr>)"
    using second
    by (simp add: try_body_def Let_def completion_def)
  have final: "add_message ?self1 ''assistant'' ''It's 2:30 PM.'' None =
                 self\<lparr>conversation_history := [?sys, ?user, ?asst, ?tool, assistant_text ''It's 2:30 PM.'']\<rparr>"
    using room by (simp add: add_message_def Let_def assistant_text_def)
  have "agentic_loop E 0 ?self0 w = agentic_loop E (0 + 1) ?self1 ?w1"
    by (rule agentic_loop_Continue[OF _ pass1]) (simp add: max_iterations_def)
  also have "\<dots> = (Inr ''It's 2:30 PM.'', add_message ?self1 ''assistant'' ''It's 2:30 PM.'' None,
                     ?w1\<lparr>api_calls := api_calls ?w1 + 1\<rparr>)"
    by (rule agentic_loop_Return[OF _ pass2]) (simp add: max_iterations_def)
  finally show ?thesis
    using user final by (simp add: process_user_input_def)
qed

theorem round_trip_get_current_time_witness:
  "process_user_input
      (test_env (scripted [completion None (Some [time_call ''{}'']) ''tool_calls'',
                           completion (Some ''It's 2:30 PM.'') None ''stop'']))
      (test_agent 20) world0 ''What time is it?''
   = (Inr ''It's 2:30 PM.'',
      (test_agent 20)\<lparr>conversation_history :=
         [system_message ''You are a test assistant.'',
          user_text ''What time is it?'',
          \<lparr>role = ''assistant'', content = None, name = None, tool_call_id = None,
           tool_calls = Some [time_call ''{}'']\<rparr>,
          \<lparr>role = ''tool'',
           content = Some (plain_json
             (PDict [(''status'', PStr ''success''), (''time'', PStr ''14:30:00''),
                     (''date'', PStr ''2026-01-07''), (''day_of_week'', PStr ''Wednesday''),
                     (''timezone'', PStr ''local'')])),
           name = Some ''get_current_time'', tool_call_id = Some ''call_1'', tool_calls = None\<rparr>,
          assistant_text ''It's 2:30 PM.'']\<rparr>,
      \<lparr>api_calls = 2, tool_runs = 1\<rparr>)"
  using round_trip_get_current_time[where
          E = "test_env (scripted [completion None (Some [time_call ''{}'']) ''tool_calls'',
                           completion (Some ''It's 2:30 PM.'') None ''stop''])"
          and self = "test_agent 20" and w = world0 and tc = "time_call ''{}''"
          and first_text = None and last_calls = None]
  by (simp add: test_env_def scripted_def test_agent_def world0_def time_call_def
        test_json_loads_def get_current_time_def test_strftime_def)






section \<open>The tool registry\<close>

text \<open>
  C7. For every argument, \<open>execute_system_command\<close> returns the same refusal, a dict
  with \<open>status = error\<close> that only echoes the argument; its body is that one dict
  literal, so the model of the function reads neither the environment nor the world.
  The same holds through the registry: whatever the deserialized arguments of a tool
  call of \<open>execute_system_command\<close> are, the content of its tool message is the
  serialization of a dict with \<open>status = error\<close>.
\<close>

theorem execute_system_command_is_disabled:
  "execute_system_command command =
     PDict [(''status'', PStr ''error''),
            (''message'', PStr ''System command execution is disabled for security reasons.''),
            (''command'', command),
            (''note'', PStr ''To enable this, modify the execute_system_command function and implement proper security controls.'')]
   \<and> py_get (execute_system_command command) ''status'' = Some (PStr ''error'')
   \<and> call_method E k ToolBox_execute_system_command [(''command'', command)]
       = Inr (execute_system_command command)
   \<and> (\<exists>d. tool_result_str E k ''execute_system_command'' function_args = Inr (json_encode E d)
           \<and> py_get d ''status'' = Some (PStr ''error''))"
  using tool_result_str_execute_system_command[of E k function_args]
  by (simp add: execute_system_command_def bind_arguments_def)

text \<open>
  C9. \<open>TOOL_SCHEMAS\<close> lists exactly five names, each of which \<open>get_tool_function\<close>
  resolves to its static method. \<open>get_tool_function\<close> also resolves
  \<open>execute_system_command\<close>, which is not among the five; it returns the docstring for
  \<open>__doc__\<close>, a string, and calling that raises \<open>TypeError\<close>; and it fails for no name
  that is an attribute the class has from Python's object model.
\<close>

theorem get_tool_function_resolves_beyond_schemas:
  "schema_names TOOL_SCHEMAS =
     [Some (PStr ''get_current_time''), Some (PStr ''get_current_weather''),
      Some (PStr ''search_web''), Some (PStr ''get_system_info''), Some (PStr ''calculate'')]
   \<and> map (get_tool_function E)
         [''get_current_time'', ''get_current_weather'', ''search_web'', ''get_system_info'',
          ''calculate'']
       = [Inr (StaticMethod ToolBox_get_current_time), Inr (StaticMethod ToolBox_get_current_weather),
          Inr (StaticMethod ToolBox_search_web), Inr (StaticMethod ToolBox_get_system_info),
          Inr (StaticMethod ToolBox_calculate)]
   \<and> get_tool_function E ''execute_system_command''
       = Inr (StaticMethod ToolBox_execute_system_command)
   \<and> Some (PStr ''execute_system_command'') \<notin> set (schema_names TOOL_SCHEMAS)
   \<and> get_tool_function E ''__doc__'' = Inr (Value (PStr ToolBox_doc))
   \<and> call_attribute E k (Value (PStr ToolBox_doc)) (PDict kw)
       = Inl (Exn ''TypeError'' (interpreter_text E ''not callable'' (PStr ToolBox_doc)))
   \<and> (\<forall>n v. inherited_attr E n = Some v \<longrightarrow> (\<exists>a. get_tool_function E n = Inr a))"
  by (simp add: schema_names_def TOOL_SCHEMAS_def get_tool_function_def ToolBox_dict_def
        call_attribute_def split: option.splits)

theorem get_tool_function_resolves_beyond_schemas_witness:
  "inherited_attr (test_env (scripted [])) ''__module__'' = Some (PStr ''tools'')
   \<and> get_tool_function (test_env (scripted [])) ''__module__'' = Inr (Value (PStr ''tools''))
   \<and> get_tool_function (test_env (scripted [])) ''execute_system_command''
       = Inr (StaticMethod ToolBox_execute_system_command)
   \<and> Some (PStr ''execute_system_command'') \<notin> set (schema_names TOOL_SCHEMAS)
   \<and> length (schema_names TOOL_SCHEMAS) = 5"
proof -
  let ?E = "test_env (scripted [])"
  note t = get_tool_function_resolves_beyond_schemas[of ?E 0 "[]"]
  have a: "inherited_attr ?E ''__module__'' = Some (PStr ''tools'')"
    by (simp add: test_env_def test_inherited_attr_def)
  with t obtain x where x: "get_tool_function ?E ''__module__'' = Inr x" by blast
  then have "x = Value (PStr ''tools'')"
    using a by (simp add: get_tool_function_def ToolBox_dict_def)
  with t a x show ?thesis by simp
qed

text \<open>
  C10. For an integer \<open>num_results\<close>, \<open>search_web\<close> returns the three results numbered
  1, 2, 3 whenever \<open>num_results\<close> is at least 3, and no result when it is at most 0;
  the schema of \<open>search_web\<close> gives \<open>num_results\<close> the minimum 1 and the maximum 5, so
  that a request for 4 or 5 results is answered with 3.
\<close>

theorem search_web_returns_at_most_three:
  "(3 \<le> n \<longrightarrow>
      search_web E query (PInt n) =
        Inr (PDict [(''status'', PStr ''success''),
                    (''query'', query),
                    (''results'', PList [search_result E query 0, search_result E query 1,
                                         search_result E query 2]),
                    (''note'', PStr ''This is dummy data. Integrate a real search API for production use.'')]))
   \<and> (n \<le> 0 \<longrightarrow>
      search_web E query (PInt n) =
        Inr (PDict [(''status'', PStr ''success''),
                    (''query'', query),
                    (''results'', PList []),
                    (''note'', PStr ''This is dummy data. Integrate a real search API for production use.'')]))
   \<and> py_path (the (schema_of TOOL_SCHEMAS ''search_web''))
         [''function'', ''parameters'', ''properties'', ''num_results'', ''minimum''] = Some (PInt 1)
   \<and> py_path (the (schema_of TOOL_SCHEMAS ''search_web''))
         [''function'', ''parameters'', ''properties'', ''num_results'', ''maximum''] = Some (PInt 5)"
  by (simp add: search_web_def numeral_3_eq_3 upt_rec schema_of_def TOOL_SCHEMAS_def)

theorem search_web_returns_at_most_three_witness:
  "(\<exists>r. search_web (test_env (scripted [])) (PStr ''cats'') (PInt 4) = Inr r
        \<and> py_get r ''results'' =
            Some (PList [search_result (test_env (scripted [])) (PStr ''cats'') 0,
                         search_result (test_env (scripted [])) (PStr ''cats'') 1,
                         search_result (test_env (scripted [])) (PStr ''cats'') 2]))
   \<and> (\<exists>r. search_web (test_env (scripted [])) (PStr ''cats'') (PInt 5) = Inr r
        \<and> py_get r ''results'' =
            Some (PList [search_result (test_env (scripted [])) (PStr ''cats'') 0,
                         search_result (test_env (scripted [])) (PStr ''cats'') 1,
                         search_result (test_env (scripted [])) (PStr ''cats'') 2]))
   \<and> (\<exists>r. search_web (test_env (scripted [])) (PStr ''cats'') (PInt 0) = Inr r
        \<and> py_get r ''results'' = Some (PList []))
   \<and> search_result (test_env (scripted [])) (PStr ''cats'') 2 =
        PDict [(''title'', PStr (''Result 3 for 'cats'' @ [CHR 0x27])),
               (''snippet'', PStr ''This is a dummy search result snippet for cats''),
               (''url'', PStr ''https://example.com/result3'')]"
proof -
  have third: "search_result (test_env (scripted [])) (PStr ''cats'') 2 =
        PDict [(''title'', PStr (''Result 3 for 'cats'' @ [CHR 0x27])),
               (''snippet'', PStr ''This is a dummy search result snippet for cats''),
               (''url'', PStr ''https://example.com/result3'')]"
    by code_simp
  from search_web_returns_at_most_three[of 4 "test_env (scripted [])" "PStr ''cats''"]
       search_web_returns_at_most_three[of 5 "test_env (scripted [])" "PStr ''cats''"]
       search_web_returns_at_most_three[of 0 "test_env (scripted [])" "PStr ''cats''"]
  have "(\<exists>r. search_web (test_env (scripted [])) (PStr ''cats'') (PInt 4) = Inr r
        \<and> py_get r ''results'' =
            Some (PList [search_result (test_env (scripted [])) (PStr ''cats'') 0,
                         search_result (test_env (scripted [])) (PStr ''cats'') 1,
                         search_result (test_env (scripted [])) (PStr ''cats'') 2]))
   \<and> (\<exists>r. search_web (test_env (scripted [])) (PStr ''cats'') (PInt 5) = Inr r
        \<and> py_get r ''results'' =
            Some (PList [search_result (test_env (scripted [])) (PStr ''cats'') 0,
                         search_result (test_env (scripted [])) (PStr ''cats'') 1,
                         search_result (test_env (scripted [])) (PStr ''cats'') 2]))
   \<and> (\<exists>r. search_web (test_env (scripted [])) (PStr ''cats'') (PInt 0) = Inr r
        \<and> py_get r ''results'' = Some (PList []))"
    by simp
  with third show ?thesis by blast
qed

end
